theory Spec2Isabelle
  imports Complex_Main "HOL-Library.Log_Nat"
begin

section \<open>JavaScript numbers\<close>

text \<open>
  Every amount in the calculators is a JavaScript \<open>number\<close>. The model keeps the three
  special values of the type apart from the finite ones, because the code divides by
  quantities that can be zero: a finite value is a real number, with arithmetic on finite
  values exact (the rounding and overflow of the 64-bit format are modelled apart, for the
  schedule generator, in the section on double-precision arithmetic), and
  \<open>NaN\<close>, \<open>+Infinity\<close> and \<open>-Infinity\<close> are propagated as ECMAScript prescribes.
  There is one zero, read as \<open>+0\<close> where its sign matters (as a divisor): the zero
  divisors of this code are differences and sums of finite values, which are \<open>+0\<close>.
\<close>

datatype jsnum = Fin real | PInf | NInf | NaN

fun js_neg :: "jsnum \<Rightarrow> jsnum" where
  "js_neg (Fin x) = Fin (- x)"
| "js_neg PInf = NInf"
| "js_neg NInf = PInf"
| "js_neg NaN = NaN"

fun js_add :: "jsnum \<Rightarrow> jsnum \<Rightarrow> jsnum" where
  "js_add NaN _ = NaN"
| "js_add _ NaN = NaN"
| "js_add (Fin x) (Fin y) = Fin (x + y)"
| "js_add PInf NInf = NaN"
| "js_add NInf PInf = NaN"
| "js_add PInf _ = PInf"
| "js_add NInf _ = NInf"
| "js_add (Fin x) PInf = PInf"
| "js_add (Fin x) NInf = NInf"

definition js_sub :: "jsnum \<Rightarrow> jsnum \<Rightarrow> jsnum" where
  "js_sub a b = js_add a (js_neg b)"

text \<open>The infinity of the given sign, for infinite products and quotients.\<close>

definition inf_signed :: "bool \<Rightarrow> jsnum" where
  "inf_signed positive = (if positive then PInf else NInf)"

fun js_mul :: "jsnum \<Rightarrow> jsnum \<Rightarrow> jsnum" where
  "js_mul NaN _ = NaN"
| "js_mul _ NaN = NaN"
| "js_mul (Fin x) (Fin y) = Fin (x * y)"
| "js_mul PInf PInf = PInf"
| "js_mul PInf NInf = NInf"
| "js_mul NInf PInf = NInf"
| "js_mul NInf NInf = PInf"
| "js_mul PInf (Fin y) = (if y = 0 then NaN else inf_signed (0 < y))"
| "js_mul NInf (Fin y) = (if y = 0 then NaN else inf_signed (y < 0))"
| "js_mul (Fin x) PInf = (if x = 0 then NaN else inf_signed (0 < x))"
| "js_mul (Fin x) NInf = (if x = 0 then NaN else inf_signed (x < 0))"

fun js_div :: "jsnum \<Rightarrow> jsnum \<Rightarrow> jsnum" where
  "js_div NaN _ = NaN"
| "js_div _ NaN = NaN"
| "js_div (Fin x) (Fin y) =
     (if y = 0 then (if x = 0 then NaN else inf_signed (0 < x)) else Fin (x / y))"
| "js_div (Fin x) PInf = Fin 0"
| "js_div (Fin x) NInf = Fin 0"
| "js_div PInf (Fin y) = inf_signed (0 \<le> y)"
| "js_div NInf (Fin y) = inf_signed (y < 0)"
| "js_div PInf _ = NaN"
| "js_div NInf _ = NaN"

text \<open>\<open>a < b\<close> and \<open>a !== b\<close> on numbers: every comparison with \<open>NaN\<close> is false,
  and \<open>NaN\<close> differs from everything, itself included.\<close>

fun js_lt :: "jsnum \<Rightarrow> jsnum \<Rightarrow> bool" where
  "js_lt NaN _ = False"
| "js_lt _ NaN = False"
| "js_lt (Fin x) (Fin y) = (x < y)"
| "js_lt NInf NInf = False"
| "js_lt NInf _ = True"
| "js_lt _ NInf = False"
| "js_lt PInf _ = False"
| "js_lt (Fin x) PInf = True"

definition js_gt :: "jsnum \<Rightarrow> jsnum \<Rightarrow> bool" where
  "js_gt a b = js_lt b a"

definition js_neq :: "jsnum \<Rightarrow> jsnum \<Rightarrow> bool" where
  "js_neq a b = (a = NaN \<or> b = NaN \<or> a \<noteq> b)"

text \<open>\<open>Math.max(a, b)\<close>: \<open>NaN\<close> as soon as one argument is.\<close>

definition js_max :: "jsnum \<Rightarrow> jsnum \<Rightarrow> jsnum" where
  "js_max a b = (if a = NaN \<or> b = NaN then NaN else if js_lt a b then b else a)"

text \<open>
  \<open>Math.pow\<close>. On finite arguments the result is the real power: by repeated
  multiplication when the exponent is a whole number, the only case in which a negative
  base has a power. The special cases are those of ECMAScript's \<open>Number::exponentiate\<close>.
\<close>

definition is_int :: "real \<Rightarrow> bool" where
  "is_int y = (y = of_int \<lfloor>y\<rfloor>)"

definition real_pow :: "real \<Rightarrow> real \<Rightarrow> real" where
  "real_pow x y =
     (if is_int y then (if 0 \<le> y then x ^ nat \<lfloor>y\<rfloor> else inverse (x ^ nat \<lfloor>- y\<rfloor>))
      else x powr y)"

definition is_odd_int :: "real \<Rightarrow> bool" where
  "is_odd_int y = (is_int y \<and> odd \<lfloor>y\<rfloor>)"

fun js_pow :: "jsnum \<Rightarrow> jsnum \<Rightarrow> jsnum" where
  "js_pow _ NaN = NaN"
| "js_pow b (Fin y) =
     (if y = 0 then Fin 1
      else case b of
        NaN \<Rightarrow> NaN
      | PInf \<Rightarrow> (if 0 < y then PInf else Fin 0)
      | NInf \<Rightarrow> (if 0 < y then (if is_odd_int y then NInf else PInf) else Fin 0)
      | Fin x \<Rightarrow>
          (if x = 0 then (if 0 < y then Fin 0 else PInf)
           else if x < 0 \<and> \<not> is_int y then NaN
           else Fin (real_pow x y)))"
| "js_pow b PInf =
     (case b of
        NaN \<Rightarrow> NaN
      | Fin x \<Rightarrow> (if 1 < \<bar>x\<bar> then PInf else if \<bar>x\<bar> = 1 then NaN else Fin 0)
      | _ \<Rightarrow> PInf)"
| "js_pow b NInf =
     (case b of
        NaN \<Rightarrow> NaN
      | Fin x \<Rightarrow> (if 1 < \<bar>x\<bar> then Fin 0 else if \<bar>x\<bar> = 1 then NaN else PInf)
      | _ \<Rightarrow> Fin 0)"

definition js_finite :: "jsnum \<Rightarrow> bool" where
  "js_finite a = (case a of Fin _ \<Rightarrow> True | _ \<Rightarrow> False)"

section \<open>Arrays\<close>

text \<open>\<open>Array.prototype.slice(start, end)\<close>: a negative index counts from the end, and
  both indices are clamped to the array.\<close>

definition js_slice :: "'a list \<Rightarrow> int \<Rightarrow> int \<Rightarrow> 'a list" where
  "js_slice xs start fin =
     (let len = int (length xs);
          k = (if start < 0 then max (len + start) 0 else min start len);
          final = (if fin < 0 then max (len + fin) 0 else min fin len)
      in take (nat (final - k)) (drop (nat k) xs))"

text \<open>\<open>Array.prototype.findIndex\<close>: the first index whose element satisfies the
  predicate, \<open>-1\<close> when there is none.\<close>

fun findIndex :: "('a \<Rightarrow> bool) \<Rightarrow> 'a list \<Rightarrow> int" where
  "findIndex p [] = - 1"
| "findIndex p (x # xs) =
     (if p x then 0 else (let k = findIndex p xs in if k = - 1 then - 1 else k + 1))"

text \<open>\<open>rows.reduce((sum, row) => sum + f(row), 0)\<close>.\<close>

definition reduce_sum :: "('a \<Rightarrow> jsnum) \<Rightarrow> 'a list \<Rightarrow> jsnum" where
  "reduce_sum f rows = foldl (\<lambda>sum row. js_add sum (f row)) (Fin 0) rows"

section \<open>Period rate (DCBCalculator.tsx and the loan calculator)\<close>

text \<open>A \<open>Date\<close> is its time value, counted in days: the dates of the forms are calendar
  days. \<open>addMonths\<close> and \<open>differenceInDays\<close> belong to the date library, not to this
  repository; the calculation takes them as parameters.\<close>

type_synonym date = int

definition getMonthsToAdd :: "string \<Rightarrow> int" where
  "getMonthsToAdd frequency =
     (if frequency = ''daily'' then 1
      else if frequency = ''monthly'' then 1
      else if frequency = ''quarterly'' then 3
      else if frequency = ''half-yearly'' then 6
      else if frequency = ''yearly'' then 12
      else 1)"

definition periodsPerYear :: "string \<Rightarrow> real" where
  "periodsPerYear interestFrequency =
     (if interestFrequency = ''daily'' then 365
      else if interestFrequency = ''monthly'' then 12
      else if interestFrequency = ''quarterly'' then 4
      else if interestFrequency = ''half-yearly'' then 2
      else if interestFrequency = ''yearly'' then 1
      else 1)"

definition getRatePerPeriod :: "jsnum \<Rightarrow> string \<Rightarrow> int \<Rightarrow> jsnum" where
  "getRatePerPeriod annualRate interestFrequency instalmentMonths =
     (let tYears = js_div (Fin (of_int instalmentMonths)) (Fin 12)
      in if interestFrequency = ''no-compound'' then js_mul annualRate tYears
         else js_sub
                (js_pow (js_add (Fin 1) (js_div annualRate (Fin (periodsPerYear interestFrequency))))
                        (js_mul (Fin (periodsPerYear interestFrequency)) tYears))
                (Fin 1))"

section \<open>Amortization schedule\<close>

record AmortizationRow =
  installmentNumber :: nat
  dueDate :: date
  principalAmount :: jsnum
  interestAmount :: jsnum
  totalInstallment :: jsnum
  principalBalance :: jsnum

text \<open>\<open>EMI = P * r * (1 + r)^n / ((1 + r)^n - 1)\<close>, as both calculators compute it.\<close>

definition emiFormula :: "jsnum \<Rightarrow> jsnum \<Rightarrow> int \<Rightarrow> jsnum" where
  "emiFormula loanPrincipal ratePerPeriod totalInstalments =
     js_div
       (js_mul (js_mul loanPrincipal ratePerPeriod)
               (js_pow (js_add (Fin 1) ratePerPeriod) (Fin (of_int totalInstalments))))
       (js_sub (js_pow (js_add (Fin 1) ratePerPeriod) (Fin (of_int totalInstalments))) (Fin 1))"

text \<open>The loop \<open>for (let i = 0; i < totalInstalments; i++)\<close> that pushes one row per
  instalment; the same loop builds the schedule of the loan calculator.\<close>

function scheduleLoop ::
  "(date \<Rightarrow> int \<Rightarrow> date) \<Rightarrow> date \<Rightarrow> int \<Rightarrow> jsnum \<Rightarrow> jsnum \<Rightarrow> int \<Rightarrow> nat \<Rightarrow> jsnum
     \<Rightarrow> AmortizationRow list" where
  "scheduleLoop addMonths startDate monthsToAdd ratePerPeriod instalmentAmount
                totalInstalments i remainingBalance =
     (if int i < totalInstalments then
        (let dueDate = addMonths startDate (int i * monthsToAdd);
             interestAmount = js_mul remainingBalance ratePerPeriod;
             principalAmount = js_sub instalmentAmount interestAmount
         in \<lparr>installmentNumber = i + 1,
             dueDate = dueDate,
             principalAmount = principalAmount,
             interestAmount = interestAmount,
             totalInstallment = instalmentAmount,
             principalBalance = js_sub remainingBalance principalAmount\<rparr>
            # scheduleLoop addMonths startDate monthsToAdd ratePerPeriod instalmentAmount
                totalInstalments (Suc i) (js_sub remainingBalance principalAmount))
      else [])"
  by pat_completeness auto
termination
  by (relation "measure (\<lambda>(am, sd, m, r, a, n, i, b). nat (n - int i))") auto

declare scheduleLoop.simps [simp del]

section \<open>The schedule in double-precision arithmetic\<close>














section \<open>The DCB calculation (DCBCalculator.tsx, handleCalculate)\<close>

text \<open>
  The form after its fields have been parsed: \<open>parseFloat\<close> of the amounts and the rate,
  \<open>parseInt\<close> of the counts, with \<open>|| 0\<close> already applied to the optional ones. The
  check that no required field is empty comes before and is not part of the model.
\<close>

datatype inputOption = Instalments | Outstanding | Collection

record LoanForm =
  loanAmount :: real
  interestRate :: real
  numInstalments :: int
  instalmentFreq :: string
  interestAppFreq :: string
  instalmentStartDate :: date
  upToDate :: date
  inputOption :: inputOption
  instalmentsPaid :: int
  principalOutstanding :: real
  interestOutstanding :: real
  principalCollection :: real
  interestCollection :: real

record CalculationResults =
  instalmentAmount :: jsnum
  emiPerMonth :: jsnum
  principalDemand :: jsnum
  interestDemand :: jsnum
  overduePrincipal :: jsnum
  overdueInterest :: jsnum
  installmentsToBePaid :: int
  outstandingPrincipal :: jsnum
  outstandingInterest :: jsnum
  totalPrincipalBalance :: jsnum
  totalInterestBalance :: jsnum
  overdueSinceDate :: "date option"
  overdueDays :: "int option"
  demand :: jsnum
  collection :: jsnum
  balance :: jsnum
  amortizationSchedule :: "AmortizationRow list"

text \<open>Reading a property of \<open>undefined\<close> throws.\<close>

datatype error = TypeError

text \<open>The values \<open>handleCalculate\<close> computes on its way, each under the name of the
  local variable that holds it.\<close>

definition calc_ratePerPeriod :: "LoanForm \<Rightarrow> jsnum" where
  "calc_ratePerPeriod inp =
     getRatePerPeriod (js_div (Fin (interestRate inp)) (Fin 100)) (interestAppFreq inp)
       (getMonthsToAdd (instalmentFreq inp))"

definition calc_instalmentAmount :: "LoanForm \<Rightarrow> jsnum" where
  "calc_instalmentAmount inp =
     emiFormula (Fin (loanAmount inp)) (calc_ratePerPeriod inp) (numInstalments inp)"

definition calc_schedule :: "(date \<Rightarrow> int \<Rightarrow> date) \<Rightarrow> LoanForm \<Rightarrow> AmortizationRow list" where
  "calc_schedule addMonths inp =
     scheduleLoop addMonths (instalmentStartDate inp) (getMonthsToAdd (instalmentFreq inp))
       (calc_ratePerPeriod inp) (calc_instalmentAmount inp) (numInstalments inp) 0
       (Fin (loanAmount inp))"

definition dueRows :: "AmortizationRow list \<Rightarrow> date \<Rightarrow> AmortizationRow list" where
  "dueRows schedule upTo = filter (\<lambda>row. dueDate row \<le> upTo) schedule"

definition calc_instalmentsDue :: "AmortizationRow list \<Rightarrow> date \<Rightarrow> int" where
  "calc_instalmentsDue schedule upTo = int (length (dueRows schedule upTo))"

text \<open>\<open>principalOut\<close>: entered in the second mode, \<open>principal - principalColl\<close> in the
  third, and left at 0 in the first.\<close>

definition calc_principalOut :: "LoanForm \<Rightarrow> jsnum" where
  "calc_principalOut inp =
     (case inputOption inp of
        Instalments \<Rightarrow> Fin 0
      | Outstanding \<Rightarrow> Fin (principalOutstanding inp)
      | Collection \<Rightarrow> js_sub (Fin (loanAmount inp)) (Fin (principalCollection inp)))"

definition calc_instalmentsPaidNum :: "LoanForm \<Rightarrow> AmortizationRow list \<Rightarrow> int" where
  "calc_instalmentsPaidNum inp schedule =
     (case inputOption inp of
        Instalments \<Rightarrow> instalmentsPaid inp
      | _ \<Rightarrow>
         (let found = findIndex (\<lambda>row. js_lt (principalBalance row) (calc_principalOut inp))
                        schedule
          in if found = - 1 then 0 else found))"

definition calc_overdueSinceDate ::
  "AmortizationRow list \<Rightarrow> int \<Rightarrow> int \<Rightarrow> error + date option" where
  "calc_overdueSinceDate schedule overdueInstalments instalmentsPaidNum =
     (if 0 < overdueInstalments \<and> instalmentsPaidNum < int (length schedule) then
        (if 0 \<le> instalmentsPaidNum then Inr (Some (dueDate (schedule ! nat instalmentsPaidNum)))
         else Inl TypeError)
      else Inr None)"

definition handleCalculate ::
  "(date \<Rightarrow> int \<Rightarrow> date) \<Rightarrow> (date \<Rightarrow> date \<Rightarrow> int) \<Rightarrow> LoanForm \<Rightarrow> error + CalculationResults" where
  "handleCalculate addMonths differenceInDays inp =
     (let principal = Fin (loanAmount inp);
          monthsToAdd = getMonthsToAdd (instalmentFreq inp);
          instalmentAmount = calc_instalmentAmount inp;
          emiPerMonth = js_div instalmentAmount (Fin (of_int monthsToAdd));
          amortizationSchedule = calc_schedule addMonths inp;
          instalmentsDue = calc_instalmentsDue amortizationSchedule (upToDate inp);
          instalmentsPaidNum = calc_instalmentsPaidNum inp amortizationSchedule;
          overdueInstalments = max 0 (instalmentsDue - instalmentsPaidNum);
          paidInstalments = js_slice amortizationSchedule 0 instalmentsPaidNum;
          overdueSchedule = js_slice amortizationSchedule instalmentsPaidNum instalmentsDue;
          paidPrincipal = reduce_sum principalAmount paidInstalments;
          paidInterest = reduce_sum interestAmount paidInstalments;
          overduePrincipal0 = reduce_sum principalAmount overdueSchedule;
          overdueInterest0 = reduce_sum interestAmount overdueSchedule;
          totalInterest = reduce_sum interestAmount amortizationSchedule;
          remainingPrincipal = js_sub (js_sub principal paidPrincipal) overduePrincipal0;
          remainingInterest = js_sub (js_sub totalInterest paidInterest) overdueInterest0;
          principalDemand = reduce_sum principalAmount (dueRows amortizationSchedule (upToDate inp));
          interestDemand = reduce_sum interestAmount (dueRows amortizationSchedule (upToDate inp));
          demand = js_add principalDemand interestDemand;
          collection = js_add paidPrincipal paidInterest;
          balance = js_sub demand collection;
          totalPrincipalBalance =
            (if inputOption inp = Outstanding then Fin (principalOutstanding inp)
             else js_sub principal paidPrincipal);
          totalInterestBalance =
            (if inputOption inp = Outstanding then Fin (interestOutstanding inp)
             else js_sub interestDemand paidInterest);
          overduePrincipal =
            (case inputOption inp of
               Instalments \<Rightarrow> overduePrincipal0
             | Outstanding \<Rightarrow> js_max (Fin 0) (js_sub totalPrincipalBalance remainingPrincipal)
             | Collection \<Rightarrow>
                 js_max (Fin 0) (js_sub principalDemand (Fin (principalCollection inp))));
          overdueInterest =
            (case inputOption inp of
               Instalments \<Rightarrow> overdueInterest0
             | Outstanding \<Rightarrow> totalInterestBalance
             | Collection \<Rightarrow>
                 js_max (Fin 0) (js_sub interestDemand (Fin (interestCollection inp))))
      in case calc_overdueSinceDate amortizationSchedule overdueInstalments instalmentsPaidNum of
           Inl e \<Rightarrow> Inl e
         | Inr since \<Rightarrow>
             Inr \<lparr>instalmentAmount = instalmentAmount,
                  emiPerMonth = emiPerMonth,
                  principalDemand = principalDemand,
                  interestDemand = interestDemand,
                  overduePrincipal = overduePrincipal,
                  overdueInterest = overdueInterest,
                  installmentsToBePaid = overdueInstalments,
                  outstandingPrincipal = remainingPrincipal,
                  outstandingInterest = remainingInterest,
                  totalPrincipalBalance = totalPrincipalBalance,
                  totalInterestBalance = totalInterestBalance,
                  overdueSinceDate = since,
                  overdueDays =
                    (case since of
                       None \<Rightarrow> None
                     | Some d \<Rightarrow> Some (max 0 (differenceInDays (upToDate inp) d))),
                  demand = demand,
                  collection = collection,
                  balance = balance,
                  amortizationSchedule = amortizationSchedule\<rparr>)"

section \<open>The loan calculator (handleCalculate of the term-loan page)\<close>

definition loan_getMonthsToAdd :: "string \<Rightarrow> int" where
  "loan_getMonthsToAdd frequency =
     (if frequency = ''monthly'' then 1
      else if frequency = ''quarterly'' then 3
      else if frequency = ''half-yearly'' then 6
      else if frequency = ''yearly'' then 12
      else 1)"

record LoanState =
  emi :: jsnum
  lastDate :: date
  schedule :: "AmortizationRow list"

text \<open>The arguments are the parsed fields \<open>loanAmount\<close>, \<open>interestRate\<close>,
  \<open>numInstalments\<close>, the two frequencies and the start date; \<open>getRatePerPeriod\<close> of this
  page is the function of the DCB page, and its loop computes the same rows.\<close>

definition loan_handleCalculate ::
  "(date \<Rightarrow> int \<Rightarrow> date) \<Rightarrow> real \<Rightarrow> real \<Rightarrow> int \<Rightarrow> string \<Rightarrow> string \<Rightarrow> date \<Rightarrow> LoanState" where
  "loan_handleCalculate addMonths amount ratePercent n instFreq appFreq startDate =
     (let months = loan_getMonthsToAdd instFreq;
          r = getRatePerPeriod (js_div (Fin ratePercent) (Fin 100)) appFreq months;
          instalmentAmount = emiFormula (Fin amount) r n
      in \<lparr>emi = instalmentAmount,
          lastDate = addMonths startDate ((n - 1) * months),
          schedule = scheduleLoop addMonths startDate months r instalmentAmount n 0 (Fin amount)\<rparr>)"

section \<open>The deposit calculator (handleCalc)\<close>

datatype PaymentMethod = MonthlyInterest | Maturity

record DepositResult =
  totalPrincipal :: jsnum
  interestAmount_deposit :: jsnum
  maturityValue :: jsnum
  apy :: jsnum

record TableRow =
  month :: nat
  contribution :: jsnum
  interest :: jsnum
  balance_deposit :: jsnum

definition compoundsPerYear :: "string \<Rightarrow> real" where
  "compoundsPerYear compounding =
     (if compounding = ''daily'' then 365
      else if compounding = ''monthly'' then 12
      else if compounding = ''quarterly'' then 4
      else if compounding = ''half-yearly'' then 2
      else if compounding = ''yearly'' then 1
      else if compounding = ''no-compound'' then 0
      else 12)"

text \<open>The interest of one month when it is paid out:
  \<open>(base * 1 * ratePct) / (1200 + ratePct)\<close>.\<close>

definition payoutInterest :: "jsnum \<Rightarrow> jsnum \<Rightarrow> jsnum" where
  "payoutInterest base ratePct =
     js_div (js_mul (js_mul base (Fin 1)) ratePct) (js_add (Fin 1200) ratePct)"

text \<open>The three loops \<open>for (let month = 1; month <= nMonths; month++)\<close>. Each returns the
  rows it pushes together with \<open>balance\<close> and \<open>cumInterest\<close> as they stand after it.\<close>

function monthlyInterestLoop ::
  "jsnum \<Rightarrow> jsnum \<Rightarrow> nat \<Rightarrow> nat \<Rightarrow> jsnum \<Rightarrow> jsnum \<Rightarrow> TableRow list \<times> jsnum \<times> jsnum" where
  "monthlyInterestLoop D ratePct nMonths m bal cumInterest =
     (if m \<le> nMonths then
        (let base = js_add bal D;
             interest = payoutInterest base ratePct;
             cumInterest' = js_add cumInterest interest;
             rest = monthlyInterestLoop D ratePct nMonths (Suc m) base cumInterest'
         in (\<lparr>month = m, contribution = D, interest = cumInterest', balance_deposit = base\<rparr>
               # fst rest, snd rest))
      else ([], bal, cumInterest))"
  by pat_completeness auto
termination
  by (relation "measure (\<lambda>(D, r, n, m, b, c). Suc n - m)") auto

function simpleInterestLoop ::
  "jsnum \<Rightarrow> jsnum \<Rightarrow> nat \<Rightarrow> nat \<Rightarrow> jsnum \<Rightarrow> jsnum \<Rightarrow> TableRow list \<times> jsnum \<times> jsnum" where
  "simpleInterestLoop D jSimple nMonths m bal cumInterest =
     (if m \<le> nMonths then
        (let base = js_add bal D;
             interest = js_mul base jSimple;
             cumInterest' = js_add cumInterest interest;
             rest = simpleInterestLoop D jSimple nMonths (Suc m) base cumInterest'
         in (\<lparr>month = m, contribution = D, interest = cumInterest', balance_deposit = base\<rparr>
               # fst rest, snd rest))
      else ([], bal, cumInterest))"
  by pat_completeness auto
termination
  by (relation "measure (\<lambda>(D, r, n, m, b, c). Suc n - m)") auto

function compoundLoop ::
  "jsnum \<Rightarrow> jsnum \<Rightarrow> nat \<Rightarrow> nat \<Rightarrow> jsnum \<Rightarrow> jsnum \<Rightarrow> TableRow list \<times> jsnum \<times> jsnum" where
  "compoundLoop D j nMonths m bal cumInterest =
     (if m \<le> nMonths then
        (let base = js_add bal D;
             interest = js_mul base j;
             bal' = js_add base interest;
             cumInterest' = js_add cumInterest interest;
             rest = compoundLoop D j nMonths (Suc m) bal' cumInterest'
         in (\<lparr>month = m, contribution = D, interest = cumInterest', balance_deposit = bal'\<rparr>
               # fst rest, snd rest))
      else ([], bal, cumInterest))"
  by pat_completeness auto
termination
  by (relation "measure (\<lambda>(D, r, n, m, b, c). Suc n - m)") auto

declare monthlyInterestLoop.simps [simp del]
declare simpleInterestLoop.simps [simp del]
declare compoundLoop.simps [simp del]

text \<open>The effective monthly rate \<open>j\<close> and the future value of the monthly deposits.\<close>

definition monthlyRate :: "jsnum \<Rightarrow> real \<Rightarrow> jsnum" where
  "monthlyRate rNominal m =
     (if 0 < m then
        js_sub (js_pow (js_add (Fin 1) (js_div rNominal (Fin m))) (js_div (Fin m) (Fin 12)))
               (Fin 1)
      else js_div rNominal (Fin 12))"

definition fvMonthly :: "jsnum \<Rightarrow> jsnum \<Rightarrow> nat \<Rightarrow> jsnum" where
  "fvMonthly D j nMonths =
     (if js_gt D (Fin 0) \<and> js_neq j (Fin 0) then
        js_mul
          (js_mul D
             (js_div (js_sub (js_pow (js_add (Fin 1) j) (Fin (real nMonths))) (Fin 1)) j))
          (js_add (Fin 1) j)
      else js_mul D (Fin (real nMonths)))"

text \<open>The arguments are the parsed fields: \<open>P\<close> and \<open>D\<close> the principal and the monthly
  deposit, \<open>nMonths\<close> the period (\<open>Math.max(0, parseInt(months) || 0)\<close>), \<open>rate\<close> the
  annual rate in percent, \<open>compounding\<close> the selected frequency (\<open>comp\<close>).\<close>

definition handleCalc ::
  "real \<Rightarrow> real \<Rightarrow> nat \<Rightarrow> real \<Rightarrow> string \<Rightarrow> PaymentMethod \<Rightarrow> DepositResult \<times> TableRow list" where
  "handleCalc P D nMonths rate compounding paymentMethod =
     (let rNominal = js_div (Fin rate) (Fin 100);
          m = compoundsPerYear compounding;
          apy = (if 0 < m then
                   js_sub (js_pow (js_add (Fin 1) (js_div rNominal (Fin m))) (Fin m)) (Fin 1)
                 else rNominal);
          j = monthlyRate rNominal m;
          totalPrincipal = js_add (Fin P) (js_mul (Fin D) (Fin (real nMonths)))
      in if paymentMethod = MonthlyInterest then
           (let (rows, bal, cumInterest) =
                  monthlyInterestLoop (Fin D) (Fin rate) nMonths 1 (Fin P) (Fin 0)
            in (\<lparr>totalPrincipal = totalPrincipal, interestAmount_deposit = cumInterest,
                 maturityValue = bal, apy = apy\<rparr>, rows))
         else if m = 0 then
           (let (rows, bal, cumInterest) =
                  simpleInterestLoop (Fin D) (js_div rNominal (Fin 12)) nMonths 1 (Fin P) (Fin 0)
            in (\<lparr>totalPrincipal = totalPrincipal, interestAmount_deposit = cumInterest,
                 maturityValue = js_add bal cumInterest, apy = apy\<rparr>, rows))
         else
           (let fvLump = js_mul (Fin P) (js_pow (js_add (Fin 1) j) (Fin (real nMonths)));
                maturity = js_add fvLump (fvMonthly (Fin D) j nMonths);
                (rows, bal, cumInterest) = compoundLoop (Fin D) j nMonths 1 (Fin P) (Fin 0)
            in (\<lparr>totalPrincipal = totalPrincipal,
                 interestAmount_deposit = js_max (Fin 0) (js_sub maturity totalPrincipal),
                 maturityValue = maturity, apy = apy\<rparr>, rows)))"

section \<open>A calendar for the examples\<close>

text \<open>
  The examples below need a concrete date library. A date is the number of its day, day 0
  being 1 January 1970; \<open>addMonths_cal\<close> moves a date by whole months, keeping the day of
  the month and clamping it to the last day of a shorter month, and \<open>differenceInDays_cal\<close>
  counts the days between two dates. The theorems hold for any library; only the examples
  use this one.
\<close>

definition mkDate :: "int \<Rightarrow> int \<Rightarrow> int \<Rightarrow> date" where
  "mkDate y m d =
     (let y' = (if m \<le> 2 then y - 1 else y);
          era = y' div 400;
          yoe = y' - era * 400;
          doy = (153 * (if 2 < m then m - 3 else m + 9) + 2) div 5 + d - 1;
          doe = yoe * 365 + yoe div 4 - yoe div 100 + doy
      in era * 146097 + doe - 719468)"

definition civil :: "date \<Rightarrow> int \<times> int \<times> int" where
  "civil z =
     (let z' = z + 719468;
          era = z' div 146097;
          doe = z' - era * 146097;
          yoe = (doe - doe div 1460 + doe div 36524 - doe div 146096) div 365;
          doy = doe - (365 * yoe + yoe div 4 - yoe div 100);
          mp = (5 * doy + 2) div 153;
          d = doy - (153 * mp + 2) div 5 + 1;
          m = (if mp < 10 then mp + 3 else mp - 9)
      in ((if m \<le> 2 then yoe + era * 400 + 1 else yoe + era * 400), m, d))"

definition daysInMonth :: "int \<Rightarrow> int \<Rightarrow> int" where
  "daysInMonth y m =
     (if m = 2 then (if y mod 4 = 0 \<and> (y mod 100 \<noteq> 0 \<or> y mod 400 = 0) then 29 else 28)
      else if m = 4 \<or> m = 6 \<or> m = 9 \<or> m = 11 then 30
      else 31)"

definition addMonths_cal :: "date \<Rightarrow> int \<Rightarrow> date" where
  "addMonths_cal date amount =
     (case civil date of
        (y, m, d) \<Rightarrow>
          (let t = y * 12 + (m - 1) + amount;
               y2 = t div 12;
               m2 = t mod 12 + 1
           in mkDate y2 m2 (min d (daysInMonth y2 m2))))"

definition differenceInDays_cal :: "date \<Rightarrow> date \<Rightarrow> int" where
  "differenceInDays_cal later earlier = later - earlier"

section \<open>Example inputs\<close>

text \<open>A loan of 300 repaid in two yearly instalments at 100 percent a year, compounded
  yearly: the period rate is 1, the instalment 400, the rows are (principal 100, interest
  300, balance 200) due on 1 January 2024 and (principal 200, interest 200, balance 0) due on
  1 January 2025. On 1 June 2025 both rows are due and one instalment has been paid.\<close>

definition example_instalments :: LoanForm where
  "example_instalments =
     \<lparr>loanAmount = 300, interestRate = 100, numInstalments = 2,
      instalmentFreq = ''yearly'', interestAppFreq = ''yearly'',
      instalmentStartDate = mkDate 2024 1 1, upToDate = mkDate 2025 6 1,
      inputOption = Instalments, instalmentsPaid = 1,
      principalOutstanding = 0, interestOutstanding = 0,
      principalCollection = 0, interestCollection = 0\<rparr>"

text \<open>The same loan in the second mode, with 250 of principal and 40 of interest
  outstanding, and in the third mode, with 50 of principal and 10 of interest collected.\<close>

definition example_outstanding :: LoanForm where
  "example_outstanding =
     example_instalments
       \<lparr>inputOption := Outstanding, principalOutstanding := 250, interestOutstanding := 40\<rparr>"

definition example_collection :: LoanForm where
  "example_collection =
     example_instalments
       \<lparr>inputOption := Collection, principalCollection := 50, interestCollection := 10\<rparr>"

text \<open>The same loan with no instalment at all, and nothing paid.\<close>

definition example_no_instalments :: LoanForm where
  "example_no_instalments = example_instalments \<lparr>numInstalments := 0, instalmentsPaid := 0\<rparr>"

text \<open>A loan of 120000 in twelve monthly instalments from 1 January 2024 at 12 percent a
  year compounded monthly, looked at on 15 June 2024, when six instalments have fallen due
  and four have been paid; and the same loan with seven instalments paid.\<close>

definition example_twelve :: LoanForm where
  "example_twelve =
     \<lparr>loanAmount = 120000, interestRate = 12, numInstalments = 12,
      instalmentFreq = ''monthly'', interestAppFreq = ''monthly'',
      instalmentStartDate = mkDate 2024 1 1, upToDate = mkDate 2024 6 15,
      inputOption = Instalments, instalmentsPaid = 4,
      principalOutstanding = 0, interestOutstanding = 0,
      principalCollection = 0, interestCollection = 0\<rparr>"

definition example_twelve_paid_up :: LoanForm where
  "example_twelve_paid_up = example_twelve \<lparr>instalmentsPaid := 7\<rparr>"

text \<open>A loan of 12000 in twelve monthly instalments at an annual rate of 0.\<close>

definition example_zero_rate :: LoanForm where
  "example_zero_rate = example_twelve \<lparr>loanAmount := 12000, interestRate := 0\<rparr>"

text \<open>The result of the DCB calculation on an example, with the example calendar.\<close>

definition run_example :: "LoanForm \<Rightarrow> CalculationResults" where
  "run_example inp = projr (handleCalculate addMonths_cal differenceInDays_cal inp)"

section \<open>The balance after a number of instalments\<close>


section \<open>Properties of the schedule loop and of the DCB calculation\<close>

lemma scheduleLoop_length:
  "length (scheduleLoop am sd m r a n i b) = nat (n - int i)"
proof (induction "nat (n - int i)" arbitrary: i b)
  case 0
  then show ?case by (simp add: scheduleLoop.simps)
next
  case (Suc k)
  then have k: "k = nat (n - int (Suc i))" by simp
  have lt: "int i < n" using Suc(2) by simp
  have "Suc (nat (n - int (Suc i))) = nat (n - int i)" using lt by simp
  with Suc(1)[OF k] lt show ?case
    by (subst scheduleLoop.simps) (simp add: Let_def)
qed

lemma scheduleLoop_dueDates:
  "map dueDate (scheduleLoop am sd m r a n i b) = map (\<lambda>j. am sd (int j * m)) [i..<i + nat (n - int i)]"
proof (induction "nat (n - int i)" arbitrary: i b)
  case 0
  then show ?case by (simp add: scheduleLoop.simps)
next
  case (Suc k)
  then have k: "k = nat (n - int (Suc i))" by simp
  have lt: "int i < n" using Suc(2) by simp
  have "i + nat (n - int i) = Suc i + nat (n - int (Suc i))" using lt by simp
  then have "[i..<i + nat (n - int i)] = i # [Suc i..<Suc i + nat (n - int (Suc i))]"
    by (simp add: upt_conv_Cons)
  with Suc(1)[OF k] lt show ?case
    by (subst scheduleLoop.simps) (simp add: Let_def)
qed

lemma handleCalculate_paid_nonneg:
  assumes "handleCalculate addMonths differenceInDays inp = Inr res"
  shows "0 \<le> calc_instalmentsPaidNum inp (calc_schedule addMonths inp)"
proof (rule ccontr)
  assume "\<not> ?thesis"
  then have neg: "calc_instalmentsPaidNum inp (calc_schedule addMonths inp) < 0" by simp
  have "0 \<le> calc_instalmentsDue (calc_schedule addMonths inp) (upToDate inp)"
    by (simp add: calc_instalmentsDue_def)
  with neg have "calc_overdueSinceDate (calc_schedule addMonths inp)
           (max 0 (calc_instalmentsDue (calc_schedule addMonths inp) (upToDate inp)
                   - calc_instalmentsPaidNum inp (calc_schedule addMonths inp)))
           (calc_instalmentsPaidNum inp (calc_schedule addMonths inp)) = Inl TypeError"
    by (simp add: calc_overdueSinceDate_def)
  with assms show False
    by (simp add: handleCalculate_def Let_def)
qed

lemma handleCalculate_returns:
  assumes "0 \<le> calc_instalmentsPaidNum inp (calc_schedule addMonths inp)"
  shows "handleCalculate addMonths differenceInDays inp
           = Inr (projr (handleCalculate addMonths differenceInDays inp))"
  using assms by (simp add: handleCalculate_def Let_def calc_overdueSinceDate_def)

lemma handleCalculate_schedule:
  "handleCalculate addMonths differenceInDays inp = Inr res
    \<Longrightarrow> amortizationSchedule res = calc_schedule addMonths inp"
  by (auto simp: handleCalculate_def Let_def split: sum.splits)

lemma js_slice_take: "0 \<le> k \<Longrightarrow> js_slice xs 0 k = take (nat k) xs"
  by (auto simp: js_slice_def Let_def min_def)

lemma js_max_not_negative: "\<not> js_lt (js_max (Fin 0) x) (Fin 0)"
  by (cases x) (auto simp: js_max_def)

lemma handleCalculate_fields:
  assumes "handleCalculate addMonths differenceInDays inp = Inr res"
  shows "amortizationSchedule res = calc_schedule addMonths inp"
    and "instalmentAmount res = calc_instalmentAmount inp"
    and "principalDemand res =
           reduce_sum principalAmount (dueRows (calc_schedule addMonths inp) (upToDate inp))"
    and "interestDemand res =
           reduce_sum interestAmount (dueRows (calc_schedule addMonths inp) (upToDate inp))"
    and "demand res = js_add (principalDemand res) (interestDemand res)"
    and "balance res = js_sub (demand res) (collection res)"
    and "collection res =
           js_add
             (reduce_sum principalAmount
                (js_slice (calc_schedule addMonths inp) 0
                   (calc_instalmentsPaidNum inp (calc_schedule addMonths inp))))
             (reduce_sum interestAmount
                (js_slice (calc_schedule addMonths inp) 0
                   (calc_instalmentsPaidNum inp (calc_schedule addMonths inp))))"
    and "outstandingPrincipal res =
           js_sub
             (js_sub (Fin (loanAmount inp))
                (reduce_sum principalAmount
                   (js_slice (calc_schedule addMonths inp) 0
                      (calc_instalmentsPaidNum inp (calc_schedule addMonths inp)))))
             (reduce_sum principalAmount
                (js_slice (calc_schedule addMonths inp)
                   (calc_instalmentsPaidNum inp (calc_schedule addMonths inp))
                   (calc_instalmentsDue (calc_schedule addMonths inp) (upToDate inp))))"
    and "outstandingInterest res =
           js_sub
             (js_sub (reduce_sum interestAmount (calc_schedule addMonths inp))
                (reduce_sum interestAmount
                   (js_slice (calc_schedule addMonths inp) 0
                      (calc_instalmentsPaidNum inp (calc_schedule addMonths inp)))))
             (reduce_sum interestAmount
                (js_slice (calc_schedule addMonths inp)
                   (calc_instalmentsPaidNum inp (calc_schedule addMonths inp))
                   (calc_instalmentsDue (calc_schedule addMonths inp) (upToDate inp))))"
    and "installmentsToBePaid res =
           max 0 (calc_instalmentsDue (calc_schedule addMonths inp) (upToDate inp)
                  - calc_instalmentsPaidNum inp (calc_schedule addMonths inp))"
    and "calc_overdueSinceDate (calc_schedule addMonths inp)
           (max 0 (calc_instalmentsDue (calc_schedule addMonths inp) (upToDate inp)
                   - calc_instalmentsPaidNum inp (calc_schedule addMonths inp)))
           (calc_instalmentsPaidNum inp (calc_schedule addMonths inp))
         = Inr (overdueSinceDate res)"
    and "overdueDays res =
           (case overdueSinceDate res of
              None \<Rightarrow> None
            | Some d \<Rightarrow> Some (max 0 (differenceInDays (upToDate inp) d)))"
  using assms by (auto simp: handleCalculate_def Let_def split: sum.splits)

lemma handleCalculate_overdue_instalments:
  assumes "handleCalculate addMonths differenceInDays inp = Inr res"
    and "inputOption inp = Instalments"
  shows "overduePrincipal res =
           reduce_sum principalAmount
             (js_slice (calc_schedule addMonths inp)
                (calc_instalmentsPaidNum inp (calc_schedule addMonths inp))
                (calc_instalmentsDue (calc_schedule addMonths inp) (upToDate inp)))"
    and "overdueInterest res =
           reduce_sum interestAmount
             (js_slice (calc_schedule addMonths inp)
                (calc_instalmentsPaidNum inp (calc_schedule addMonths inp))
                (calc_instalmentsDue (calc_schedule addMonths inp) (upToDate inp)))"
  using assms by (auto simp: handleCalculate_def Let_def split: sum.splits)

lemma reduce_sum_Nil: "reduce_sum f [] = Fin 0"
  by (simp add: reduce_sum_def)

lemma js_slice_Nil: "js_slice [] a b = []"
  by (simp add: js_slice_def Let_def)

lemma calc_schedule_no_instalments:
  "numInstalments inp = 0 \<Longrightarrow> calc_schedule addMonths inp = []"
  by (simp add: calc_schedule_def scheduleLoop.simps)

lemma calc_instalmentsPaidNum_Nil:
  "calc_instalmentsPaidNum inp [] =
     (if inputOption inp = Instalments then instalmentsPaid inp else 0)"
  by (simp add: calc_instalmentsPaidNum_def split: inputOption.splits)

lemma calc_instalmentsDue_dates:
  "calc_instalmentsDue rows upTo = int (length (filter (\<lambda>d. d \<le> upTo) (map dueDate rows)))"
  by (simp add: calc_instalmentsDue_def dueRows_def length_filter_map comp_def)

lemma findIndex_lower: "- 1 \<le> findIndex p xs"
  by (induction xs) (auto simp: Let_def)

lemma calc_instalmentsPaidNum_nonneg:
  assumes "inputOption inp = Instalments \<longrightarrow> 0 \<le> instalmentsPaid inp"
  shows "0 \<le> calc_instalmentsPaidNum inp rows"
proof (cases "inputOption inp")
  case Instalments
  with assms show ?thesis by (simp add: calc_instalmentsPaidNum_def)
next
  case Outstanding
  then show ?thesis
    using findIndex_lower[of "\<lambda>row. js_lt (principalBalance row) (calc_principalOut inp)" rows]
    by (simp add: calc_instalmentsPaidNum_def Let_def)
next
  case Collection
  then show ?thesis
    using findIndex_lower[of "\<lambda>row. js_lt (principalBalance row) (calc_principalOut inp)" rows]
    by (simp add: calc_instalmentsPaidNum_def Let_def)
qed

lemma examples_return:
  "handleCalculate addMonths_cal differenceInDays_cal example_instalments
     = Inr (run_example example_instalments)"
  "handleCalculate addMonths_cal differenceInDays_cal example_outstanding
     = Inr (run_example example_outstanding)"
  "handleCalculate addMonths_cal differenceInDays_cal example_collection
     = Inr (run_example example_collection)"
  "handleCalculate addMonths_cal differenceInDays_cal example_no_instalments
     = Inr (run_example example_no_instalments)"
  "handleCalculate addMonths_cal differenceInDays_cal example_twelve
     = Inr (run_example example_twelve)"
  "handleCalculate addMonths_cal differenceInDays_cal example_twelve_paid_up
     = Inr (run_example example_twelve_paid_up)"
  unfolding run_example_def
  by (rule handleCalculate_returns, rule calc_instalmentsPaidNum_nonneg,
      simp add: example_instalments_def example_outstanding_def
        example_collection_def example_no_instalments_def example_twelve_def
        example_twelve_paid_up_def)+

section \<open>The balance identity\<close>

text \<open>
  Claim C3. Whenever the DCB calculation returns a result, in any of the three input modes,
  the reported balance is exactly demand minus collection, where demand is the sum of
  principalDemand and interestDemand, these two are the sums of the principal and interest
  parts of the rows due on or before the as-of date, and collection is the sum of the
  principal and interest parts of the first k rows, k being the number of paid instalments.
\<close>

theorem dcb_balance_identity:
  assumes "handleCalculate addMonths differenceInDays inp = Inr res"
  shows "balance res = js_sub (demand res) (collection res)
     \<and> demand res = js_add (principalDemand res) (interestDemand res)
     \<and> principalDemand res =
         reduce_sum principalAmount
           (filter (\<lambda>row. dueDate row \<le> upToDate inp) (amortizationSchedule res))
     \<and> interestDemand res =
         reduce_sum interestAmount
           (filter (\<lambda>row. dueDate row \<le> upToDate inp) (amortizationSchedule res))
     \<and> collection res =
         js_add
           (reduce_sum principalAmount
              (take (nat (calc_instalmentsPaidNum inp (amortizationSchedule res)))
                 (amortizationSchedule res)))
           (reduce_sum interestAmount
              (take (nat (calc_instalmentsPaidNum inp (amortizationSchedule res)))
                 (amortizationSchedule res)))"
proof -
  have k: "0 \<le> calc_instalmentsPaidNum inp (calc_schedule addMonths inp)"
    using assms by (rule handleCalculate_paid_nonneg)
  note f = handleCalculate_fields[OF assms]
  show ?thesis
    unfolding f(1)
    using f(3-7) by (simp add: dueRows_def js_slice_take[OF k])
qed

lemma example_instalments_values:
  "demand (run_example example_instalments) = Fin 800"
  "collection (run_example example_instalments) = Fin 400"
  "balance (run_example example_instalments) = Fin 400"
  unfolding run_example_def by code_simp+

theorem dcb_balance_identity_witness:
  "handleCalculate addMonths_cal differenceInDays_cal example_instalments
     = Inr (run_example example_instalments)
   \<and> balance (run_example example_instalments)
     = js_sub (demand (run_example example_instalments))
         (collection (run_example example_instalments))
   \<and> demand (run_example example_instalments) = Fin 800
   \<and> collection (run_example example_instalments) = Fin 400
   \<and> balance (run_example example_instalments) = Fin 400
   \<and> handleCalculate addMonths_cal differenceInDays_cal example_outstanding
     = Inr (run_example example_outstanding)
   \<and> balance (run_example example_outstanding)
     = js_sub (demand (run_example example_outstanding))
         (collection (run_example example_outstanding))
   \<and> handleCalculate addMonths_cal differenceInDays_cal example_collection
     = Inr (run_example example_collection)
   \<and> balance (run_example example_collection)
     = js_sub (demand (run_example example_collection))
         (collection (run_example example_collection))"
  by (intro conjI;
      rule examples_return(1-3) example_instalments_values
        dcb_balance_identity[OF examples_return(1), THEN conjunct1]
        dcb_balance_identity[OF examples_return(2), THEN conjunct1]
        dcb_balance_identity[OF examples_return(3), THEN conjunct1])

section \<open>Outstanding amounts\<close>

lemma example_outstanding_values:
  "calc_instalmentsPaidNum example_outstanding
     (amortizationSchedule (run_example example_outstanding)) = 0"
  "reduce_sum interestAmount (amortizationSchedule (run_example example_outstanding)) = Fin 500"
  "overduePrincipal (run_example example_outstanding) = Fin 250"
  "overdueInterest (run_example example_outstanding) = Fin 40"
  "outstandingPrincipal (run_example example_outstanding) = Fin 0"
  "outstandingInterest (run_example example_outstanding) = Fin 0"
  "totalPrincipalBalance (run_example example_outstanding) = Fin 250"
  "totalInterestBalance (run_example example_outstanding) = Fin 40"
  "loanAmount example_outstanding = 300"
  unfolding run_example_def by code_simp+

lemma example_collection_values:
  "inputOption example_collection = Collection"
  "principalDemand (run_example example_collection) = Fin 300"
  "interestDemand (run_example example_collection) = Fin 500"
  "overduePrincipal (run_example example_collection) = Fin 250"
  "overdueInterest (run_example example_collection) = Fin 490"
  "principalCollection example_collection = 50"
  "interestCollection example_collection = 10"
  unfolding run_example_def by code_simp+

lemma example_collection_outstanding:
  "calc_instalmentsPaidNum example_collection
     (amortizationSchedule (run_example example_collection)) = 0"
  "outstandingPrincipal (run_example example_collection) = Fin 0"
  "loanAmount example_collection = 300"
  unfolding run_example_def by code_simp+

text \<open>
  Claim C4, as stated: in every input mode the reported outstandingPrincipal is principal
  minus paidPrincipal minus the reported overduePrincipal, and the reported
  outstandingInterest is the total interest minus paidInterest minus the reported
  overdueInterest. This fails in the second mode: with 250 of principal and 40 of interest
  entered as outstanding, no instalment counts as paid, the reported overdue amounts are 250
  and 40, and the reported outstanding amounts are both 0, not 300 - 0 - 250 = 50 and
  500 - 0 - 40 = 460. It fails in the third mode too: with 50 of principal collected the
  reported overdue principal is 250 and the reported outstanding principal 0, not 50.
\<close>

theorem outstanding_reported_overdue_counterexample:
  "outstandingPrincipal (run_example example_outstanding) = Fin 0
   \<and> js_sub
        (js_sub (Fin (loanAmount example_outstanding))
           (reduce_sum principalAmount
              (take (nat (calc_instalmentsPaidNum example_outstanding
                            (amortizationSchedule (run_example example_outstanding))))
                 (amortizationSchedule (run_example example_outstanding)))))
        (overduePrincipal (run_example example_outstanding)) = Fin 50
   \<and> outstandingInterest (run_example example_outstanding) = Fin 0
   \<and> js_sub
        (js_sub (reduce_sum interestAmount (amortizationSchedule (run_example example_outstanding)))
           (reduce_sum interestAmount
              (take (nat (calc_instalmentsPaidNum example_outstanding
                            (amortizationSchedule (run_example example_outstanding))))
                 (amortizationSchedule (run_example example_outstanding)))))
        (overdueInterest (run_example example_outstanding)) = Fin 460
   \<and> outstandingPrincipal (run_example example_outstanding) \<noteq>
       js_sub
        (js_sub (Fin (loanAmount example_outstanding))
           (reduce_sum principalAmount
              (take (nat (calc_instalmentsPaidNum example_outstanding
                            (amortizationSchedule (run_example example_outstanding))))
                 (amortizationSchedule (run_example example_outstanding)))))
        (overduePrincipal (run_example example_outstanding))
   \<and> outstandingPrincipal (run_example example_collection) = Fin 0
   \<and> js_sub
        (js_sub (Fin (loanAmount example_collection))
           (reduce_sum principalAmount
              (take (nat (calc_instalmentsPaidNum example_collection
                            (amortizationSchedule (run_example example_collection))))
                 (amortizationSchedule (run_example example_collection)))))
        (overduePrincipal (run_example example_collection)) = Fin 50"
  by (simp add: example_outstanding_values example_collection_outstanding
        example_collection_values(4) reduce_sum_Nil js_sub_def)

text \<open>
  Claim C4, amended. Whenever the DCB calculation returns a result, in any input mode, the
  reported outstandingPrincipal is principal minus paidPrincipal minus the sum of the
  principal parts of the rows from index k up to the number of rows due, and the reported
  outstandingInterest is the total interest of the schedule minus paidInterest minus the sum
  of the interest parts of those rows. In the first mode (instalments paid) these two sums
  are the reported overduePrincipal and overdueInterest, so that there the outstanding
  amounts are principal - paidPrincipal - overduePrincipal and
  totalInterest - paidInterest - overdueInterest.
\<close>

theorem outstanding_from_schedule_overdue:
  assumes "handleCalculate addMonths differenceInDays inp = Inr res"
  shows "outstandingPrincipal res =
           js_sub
             (js_sub (Fin (loanAmount inp))
                (reduce_sum principalAmount
                   (take (nat (calc_instalmentsPaidNum inp (amortizationSchedule res)))
                      (amortizationSchedule res))))
             (reduce_sum principalAmount
                (js_slice (amortizationSchedule res)
                   (calc_instalmentsPaidNum inp (amortizationSchedule res))
                   (calc_instalmentsDue (amortizationSchedule res) (upToDate inp))))
     \<and> outstandingInterest res =
           js_sub
             (js_sub (reduce_sum interestAmount (amortizationSchedule res))
                (reduce_sum interestAmount
                   (take (nat (calc_instalmentsPaidNum inp (amortizationSchedule res)))
                      (amortizationSchedule res))))
             (reduce_sum interestAmount
                (js_slice (amortizationSchedule res)
                   (calc_instalmentsPaidNum inp (amortizationSchedule res))
                   (calc_instalmentsDue (amortizationSchedule res) (upToDate inp))))
     \<and> (inputOption inp = Instalments \<longrightarrow>
          outstandingPrincipal res =
            js_sub
              (js_sub (Fin (loanAmount inp))
                 (reduce_sum principalAmount
                    (take (nat (calc_instalmentsPaidNum inp (amortizationSchedule res)))
                       (amortizationSchedule res))))
              (overduePrincipal res)
        \<and> outstandingInterest res =
            js_sub
              (js_sub (reduce_sum interestAmount (amortizationSchedule res))
                 (reduce_sum interestAmount
                    (take (nat (calc_instalmentsPaidNum inp (amortizationSchedule res)))
                       (amortizationSchedule res))))
              (overdueInterest res))"
proof -
  have k: "0 \<le> calc_instalmentsPaidNum inp (calc_schedule addMonths inp)"
    using assms by (rule handleCalculate_paid_nonneg)
  note f = handleCalculate_fields[OF assms]
  show ?thesis
    unfolding f(1)
    using f(8,9) handleCalculate_overdue_instalments[OF assms]
    by (simp add: js_slice_take[OF k])
qed

lemma example_instalments_outstanding:
  "inputOption example_instalments = Instalments"
  "reduce_sum principalAmount
     (take (nat (calc_instalmentsPaidNum example_instalments
                   (amortizationSchedule (run_example example_instalments))))
        (amortizationSchedule (run_example example_instalments))) = Fin 100"
  "overduePrincipal (run_example example_instalments) = Fin 200"
  "outstandingPrincipal (run_example example_instalments) = Fin 0"
  unfolding run_example_def by code_simp+

theorem outstanding_from_schedule_overdue_witness:
  "handleCalculate addMonths_cal differenceInDays_cal example_instalments
     = Inr (run_example example_instalments)
   \<and> inputOption example_instalments = Instalments
   \<and> outstandingPrincipal (run_example example_instalments) =
       js_sub
         (js_sub (Fin (loanAmount example_instalments))
            (reduce_sum principalAmount
               (take (nat (calc_instalmentsPaidNum example_instalments
                             (amortizationSchedule (run_example example_instalments))))
                  (amortizationSchedule (run_example example_instalments)))))
         (overduePrincipal (run_example example_instalments))
   \<and> overduePrincipal (run_example example_instalments) = Fin 200
   \<and> outstandingPrincipal (run_example example_instalments) = Fin 0"
proof -
  note t = outstanding_from_schedule_overdue[OF examples_return(1)]
  from t have "inputOption example_instalments = Instalments \<longrightarrow>
      outstandingPrincipal (run_example example_instalments) =
       js_sub
         (js_sub (Fin (loanAmount example_instalments))
            (reduce_sum principalAmount
               (take (nat (calc_instalmentsPaidNum example_instalments
                             (amortizationSchedule (run_example example_instalments))))
                  (amortizationSchedule (run_example example_instalments)))))
         (overduePrincipal (run_example example_instalments))"
    by blast
  then show ?thesis
    using examples_return(1) example_instalments_outstanding by blast
qed

section \<open>The second and third input modes\<close>

text \<open>
  Claim C5. In the second mode (outstanding amounts entered), whenever the calculation
  returns a result: totalPrincipalBalance is the entered outstanding principal,
  totalInterestBalance is the entered outstanding interest, overdueInterest equals
  totalInterestBalance, and overduePrincipal is the maximum of 0 and totalPrincipalBalance
  minus the outstanding principal derived from the schedule (the reported
  outstandingPrincipal).
\<close>

theorem outstanding_mode_overrides:
  assumes "handleCalculate addMonths differenceInDays inp = Inr res"
    and "inputOption inp = Outstanding"
  shows "totalPrincipalBalance res = Fin (principalOutstanding inp)
     \<and> totalInterestBalance res = Fin (interestOutstanding inp)
     \<and> overdueInterest res = totalInterestBalance res
     \<and> overduePrincipal res =
         js_max (Fin 0) (js_sub (totalPrincipalBalance res) (outstandingPrincipal res))"
  using assms by (auto simp: handleCalculate_def Let_def split: sum.splits)

lemma example_outstanding_mode:
  "inputOption example_outstanding = Outstanding"
  "principalOutstanding example_outstanding = 250"
  "interestOutstanding example_outstanding = 40"
  by (simp_all add: example_outstanding_def)

theorem outstanding_mode_overrides_witness:
  "handleCalculate addMonths_cal differenceInDays_cal example_outstanding
     = Inr (run_example example_outstanding)
   \<and> inputOption example_outstanding = Outstanding
   \<and> totalPrincipalBalance (run_example example_outstanding) = Fin 250
   \<and> totalInterestBalance (run_example example_outstanding) = Fin 40
   \<and> overdueInterest (run_example example_outstanding) = Fin 40
   \<and> overduePrincipal (run_example example_outstanding) = js_max (Fin 0) (js_sub (Fin 250) (Fin 0))"
  using outstanding_mode_overrides[OF examples_return(2) example_outstanding_mode(1)]
    examples_return(2)
  by (simp add: example_outstanding_mode example_outstanding_values(5))

text \<open>
  Claim C6. In the third mode (collections entered), whenever the calculation returns a
  result: overduePrincipal is the maximum of 0 and principalDemand minus the principal
  collected, overdueInterest is the maximum of 0 and interestDemand minus the interest
  collected, the two demands being the sums over the rows due on or before the as-of date;
  neither overdue amount is negative.
\<close>

theorem collection_mode_overdue:
  assumes "handleCalculate addMonths differenceInDays inp = Inr res"
    and "inputOption inp = Collection"
  shows "overduePrincipal res =
           js_max (Fin 0) (js_sub (principalDemand res) (Fin (principalCollection inp)))
     \<and> overdueInterest res =
           js_max (Fin 0) (js_sub (interestDemand res) (Fin (interestCollection inp)))
     \<and> principalDemand res =
         reduce_sum principalAmount
           (filter (\<lambda>row. dueDate row \<le> upToDate inp) (amortizationSchedule res))
     \<and> interestDemand res =
         reduce_sum interestAmount
           (filter (\<lambda>row. dueDate row \<le> upToDate inp) (amortizationSchedule res))
     \<and> \<not> js_lt (overduePrincipal res) (Fin 0)
     \<and> \<not> js_lt (overdueInterest res) (Fin 0)"
  using assms
  by (auto simp: handleCalculate_def Let_def dueRows_def js_max_not_negative split: sum.splits)

theorem collection_mode_overdue_witness:
  "handleCalculate addMonths_cal differenceInDays_cal example_collection
     = Inr (run_example example_collection)
   \<and> inputOption example_collection = Collection
   \<and> overduePrincipal (run_example example_collection)
       = js_max (Fin 0) (js_sub (principalDemand (run_example example_collection)) (Fin 50))
   \<and> overdueInterest (run_example example_collection)
       = js_max (Fin 0) (js_sub (interestDemand (run_example example_collection)) (Fin 10))
   \<and> principalDemand (run_example example_collection) = Fin 300
   \<and> interestDemand (run_example example_collection) = Fin 500
   \<and> overduePrincipal (run_example example_collection) = Fin 250
   \<and> overdueInterest (run_example example_collection) = Fin 490
   \<and> \<not> js_lt (overduePrincipal (run_example example_collection)) (Fin 0)"
proof -
  note t = collection_mode_overdue[OF examples_return(3) example_collection_values(1)]
  have a: "overduePrincipal (run_example example_collection)
       = js_max (Fin 0) (js_sub (principalDemand (run_example example_collection)) (Fin 50))"
    using t example_collection_values(6) by simp
  have b: "overdueInterest (run_example example_collection)
       = js_max (Fin 0) (js_sub (interestDemand (run_example example_collection)) (Fin 10))"
    using t example_collection_values(7) by simp
  have c: "\<not> js_lt (overduePrincipal (run_example example_collection)) (Fin 0)"
    using t by blast
  show ?thesis
    by (intro conjI; rule examples_return(3) example_collection_values a b c)
qed

section \<open>No instalments\<close>

lemma example_no_instalments_values:
  "amortizationSchedule (run_example example_no_instalments) = []"
  "instalmentAmount (run_example example_no_instalments) = PInf"
  "emiPerMonth (run_example example_no_instalments) = PInf"
  "outstandingPrincipal (run_example example_no_instalments) = Fin 300"
  "totalPrincipalBalance (run_example example_no_instalments) = Fin 300"
  "numInstalments example_no_instalments = 0"
  "inputOption example_no_instalments = Instalments"
  "instalmentsPaid example_no_instalments = 0"
  "loanAmount example_no_instalments = 300"
  unfolding run_example_def by code_simp+

lemma example_no_instalments_throws:
  "handleCalculate addMonths_cal differenceInDays_cal
     (example_no_instalments \<lparr>instalmentsPaid := - 1\<rparr>) = Inl TypeError"
  by code_simp

text \<open>
  Claim C7, as stated: with an instalment count of zero the calculation raises no error,
  the schedule is empty, every aggregate of the result is zero and no NaN or Infinity
  appears in it. On the example loan of 300 with zero instalments the schedule is empty,
  but the instalment amount is 300 * 1 * 1 / (1 - 1), which is +Infinity, and so is the
  monthly figure derived from it; the outstanding principal and the total principal balance
  are 300, not 0; and with a paid count of -1 the calculation throws.
\<close>

theorem zero_instalments_counterexample:
  "numInstalments example_no_instalments = 0
   \<and> handleCalculate addMonths_cal differenceInDays_cal example_no_instalments
       = Inr (run_example example_no_instalments)
   \<and> amortizationSchedule (run_example example_no_instalments) = []
   \<and> instalmentAmount (run_example example_no_instalments) = PInf
   \<and> emiPerMonth (run_example example_no_instalments) = PInf
   \<and> \<not> js_finite (instalmentAmount (run_example example_no_instalments))
   \<and> outstandingPrincipal (run_example example_no_instalments) = Fin 300
   \<and> totalPrincipalBalance (run_example example_no_instalments) = Fin 300
   \<and> handleCalculate addMonths_cal differenceInDays_cal
         (example_no_instalments \<lparr>instalmentsPaid := - 1\<rparr>) = Inl TypeError"
  by (simp add: example_no_instalments_values examples_return(4)
        example_no_instalments_throws js_finite_def)

text \<open>
  Claim C7, amended. With an instalment count of zero (and, in the first mode, a paid count
  that is not negative) the calculation raises no error and returns an empty schedule;
  principalDemand, interestDemand, demand, collection, balance and outstandingInterest are
  0, the number of overdue instalments is 0, overdueSinceDate and overdueDays are absent,
  and outstandingPrincipal is the principal.
\<close>

theorem zero_instalments_empty_schedule:
  assumes "numInstalments inp = 0"
    and "inputOption inp = Instalments \<longrightarrow> 0 \<le> instalmentsPaid inp"
  shows "\<exists>res. handleCalculate addMonths differenceInDays inp = Inr res
     \<and> amortizationSchedule res = []
     \<and> principalDemand res = Fin 0 \<and> interestDemand res = Fin 0
     \<and> demand res = Fin 0 \<and> collection res = Fin 0 \<and> balance res = Fin 0
     \<and> installmentsToBePaid res = 0
     \<and> overdueSinceDate res = None \<and> overdueDays res = None
     \<and> outstandingInterest res = Fin 0
     \<and> outstandingPrincipal res = Fin (loanAmount inp)"
proof -
  have s: "calc_schedule addMonths inp = []"
    using assms(1) by (rule calc_schedule_no_instalments)
  have k: "0 \<le> calc_instalmentsPaidNum inp (calc_schedule addMonths inp)"
    using assms(2) by (rule calc_instalmentsPaidNum_nonneg)
  define res where "res = projr (handleCalculate addMonths differenceInDays inp)"
  have r: "handleCalculate addMonths differenceInDays inp = Inr res"
    unfolding res_def using k by (rule handleCalculate_returns)
  note f = handleCalculate_fields[OF r, unfolded s]
  have d: "calc_instalmentsDue [] (upToDate inp) = 0"
    by (simp add: calc_instalmentsDue_def dueRows_def)
  have pd: "principalDemand res = Fin 0" and idm: "interestDemand res = Fin 0"
    using f(3,4) by (simp_all add: dueRows_def reduce_sum_Nil)
  have co: "collection res = Fin 0"
    using f(7) by (simp add: js_slice_Nil reduce_sum_Nil)
  have de: "demand res = Fin 0"
    using f(5) pd idm by simp
  have ba: "balance res = Fin 0"
    using f(6) de co by (simp add: js_sub_def)
  have ov: "installmentsToBePaid res = 0"
    using f(10) d k[unfolded s] by simp
  have "calc_overdueSinceDate [] 0 (calc_instalmentsPaidNum inp []) = Inr None"
    by (simp add: calc_overdueSinceDate_def)
  with f(11) d k[unfolded s] have sd: "overdueSinceDate res = None"
    by simp
  have od: "overdueDays res = None"
    using f(12) sd by simp
  have oi: "outstandingInterest res = Fin 0"
    using f(9) by (simp add: js_slice_Nil reduce_sum_Nil js_sub_def)
  have op: "outstandingPrincipal res = Fin (loanAmount inp)"
    using f(8) by (simp add: js_slice_Nil reduce_sum_Nil js_sub_def)
  show ?thesis
    using r f(1) pd idm de co ba ov sd od oi op by blast
qed

theorem zero_instalments_empty_schedule_witness:
  "numInstalments example_no_instalments = 0
   \<and> 0 \<le> instalmentsPaid example_no_instalments
   \<and> handleCalculate addMonths_cal differenceInDays_cal example_no_instalments
       = Inr (run_example example_no_instalments)
   \<and> amortizationSchedule (run_example example_no_instalments) = []
   \<and> balance (run_example example_no_instalments) = Fin 0
   \<and> overdueSinceDate (run_example example_no_instalments) = None
   \<and> outstandingPrincipal (run_example example_no_instalments) = Fin 300"
proof -
  have h: "inputOption example_no_instalments = Instalments
             \<longrightarrow> 0 \<le> instalmentsPaid example_no_instalments"
    by (simp add: example_no_instalments_values)
  from zero_instalments_empty_schedule[OF example_no_instalments_values(6) h,
        of addMonths_cal differenceInDays_cal]
  obtain res where
    "handleCalculate addMonths_cal differenceInDays_cal example_no_instalments = Inr res"
    "amortizationSchedule res = []" "balance res = Fin 0" "overdueSinceDate res = None"
    "outstandingPrincipal res = Fin (loanAmount example_no_instalments)"
    by blast
  then show ?thesis
    using examples_return(4) by (simp add: example_no_instalments_values)
qed

section \<open>Overdue since\<close>

text \<open>
  Claim C8. Whenever the DCB calculation returns a result, with k the number of paid
  instalments: the number of overdue instalments is the number of rows due by the as-of
  date minus k, or 0 when that is negative; if it is positive and k is less than the length
  of the schedule, overdueSinceDate is the due date of the row at index k and overdueDays is
  the maximum of 0 and the whole-day difference between the as-of date and that date; if k
  is at least the number of rows due, no instalment is overdue and overdueSinceDate is
  absent. In particular, with twelve rows, six of them due and four paid, two instalments
  are overdue, since the due date of the row at index 4.
\<close>

theorem overdue_since_date:
  assumes "handleCalculate addMonths differenceInDays inp = Inr res"
  shows "installmentsToBePaid res =
           max 0 (calc_instalmentsDue (amortizationSchedule res) (upToDate inp)
                  - calc_instalmentsPaidNum inp (amortizationSchedule res))
     \<and> (0 < installmentsToBePaid res
          \<and> calc_instalmentsPaidNum inp (amortizationSchedule res)
              < int (length (amortizationSchedule res)) \<longrightarrow>
          0 \<le> calc_instalmentsPaidNum inp (amortizationSchedule res)
        \<and> overdueSinceDate res =
            Some (dueDate (amortizationSchedule res
                    ! nat (calc_instalmentsPaidNum inp (amortizationSchedule res))))
        \<and> overdueDays res =
            Some (max 0 (differenceInDays (upToDate inp)
                    (dueDate (amortizationSchedule res
                    ! nat (calc_instalmentsPaidNum inp (amortizationSchedule res)))))))
     \<and> (calc_instalmentsDue (amortizationSchedule res) (upToDate inp)
          \<le> calc_instalmentsPaidNum inp (amortizationSchedule res) \<longrightarrow>
          installmentsToBePaid res = 0 \<and> overdueSinceDate res = None
          \<and> overdueDays res = None)
     \<and> (length (amortizationSchedule res) = 12
          \<and> calc_instalmentsDue (amortizationSchedule res) (upToDate inp) = 6
          \<and> calc_instalmentsPaidNum inp (amortizationSchedule res) = 4 \<longrightarrow>
          installmentsToBePaid res = 2
          \<and> overdueSinceDate res = Some (dueDate (amortizationSchedule res ! 4)))"
proof -
  have k: "0 \<le> calc_instalmentsPaidNum inp (calc_schedule addMonths inp)"
    using assms by (rule handleCalculate_paid_nonneg)
  show ?thesis
    using assms k
    by (auto simp: handleCalculate_def Let_def calc_overdueSinceDate_def
             split: sum.splits if_splits)
qed

lemma example_twelve_dueDates:
  "map dueDate (calc_schedule addMonths_cal example_twelve) =
     [mkDate 2024 1 1, mkDate 2024 2 1, mkDate 2024 3 1, mkDate 2024 4 1, mkDate 2024 5 1,
      mkDate 2024 6 1, mkDate 2024 7 1, mkDate 2024 8 1, mkDate 2024 9 1, mkDate 2024 10 1,
      mkDate 2024 11 1, mkDate 2024 12 1]"
  unfolding calc_schedule_def scheduleLoop_dueDates
  by code_simp

lemma example_twelve_paid_up_schedule:
  "calc_schedule addMonths_cal example_twelve_paid_up = calc_schedule addMonths_cal example_twelve"
  by (simp add: calc_schedule_def example_twelve_paid_up_def calc_ratePerPeriod_def
        calc_instalmentAmount_def)

lemma example_twelve_facts:
  "length (calc_schedule addMonths_cal example_twelve) = 12"
  "calc_instalmentsDue (calc_schedule addMonths_cal example_twelve) (upToDate example_twelve) = 6"
  "calc_instalmentsPaidNum example_twelve (calc_schedule addMonths_cal example_twelve) = 4"
  "dueDate (calc_schedule addMonths_cal example_twelve ! 4) = mkDate 2024 5 1"
  "calc_instalmentsDue (calc_schedule addMonths_cal example_twelve)
     (upToDate example_twelve_paid_up) = 6"
  "calc_instalmentsPaidNum example_twelve_paid_up (calc_schedule addMonths_cal example_twelve) = 7"
  "differenceInDays_cal (upToDate example_twelve) (mkDate 2024 5 1) = 45"
proof -
  show l: "length (calc_schedule addMonths_cal example_twelve) = 12"
    by (simp add: calc_schedule_def scheduleLoop_length example_twelve_def)
  show "calc_instalmentsDue (calc_schedule addMonths_cal example_twelve)
          (upToDate example_twelve) = 6"
    unfolding calc_instalmentsDue_dates example_twelve_dueDates by code_simp
  show "calc_instalmentsDue (calc_schedule addMonths_cal example_twelve)
          (upToDate example_twelve_paid_up) = 6"
    unfolding calc_instalmentsDue_dates example_twelve_dueDates by code_simp
  show "calc_instalmentsPaidNum example_twelve (calc_schedule addMonths_cal example_twelve) = 4"
    by (simp add: calc_instalmentsPaidNum_def example_twelve_def)
  show "calc_instalmentsPaidNum example_twelve_paid_up
          (calc_schedule addMonths_cal example_twelve) = 7"
    by (simp add: calc_instalmentsPaidNum_def example_twelve_def example_twelve_paid_up_def)
  have "dueDate (calc_schedule addMonths_cal example_twelve ! 4)
          = map dueDate (calc_schedule addMonths_cal example_twelve) ! 4"
    using l by simp
  then show "dueDate (calc_schedule addMonths_cal example_twelve ! 4) = mkDate 2024 5 1"
    unfolding example_twelve_dueDates by simp
  show "differenceInDays_cal (upToDate example_twelve) (mkDate 2024 5 1) = 45"
    by code_simp
qed

theorem overdue_since_date_witness:
  "handleCalculate addMonths_cal differenceInDays_cal example_twelve
     = Inr (run_example example_twelve)
   \<and> length (amortizationSchedule (run_example example_twelve)) = 12
   \<and> calc_instalmentsDue (amortizationSchedule (run_example example_twelve))
        (upToDate example_twelve) = 6
   \<and> calc_instalmentsPaidNum example_twelve (amortizationSchedule (run_example example_twelve)) = 4
   \<and> installmentsToBePaid (run_example example_twelve) = 2
   \<and> overdueSinceDate (run_example example_twelve) = Some (mkDate 2024 5 1)
   \<and> overdueDays (run_example example_twelve) = Some 45
   \<and> handleCalculate addMonths_cal differenceInDays_cal example_twelve_paid_up
     = Inr (run_example example_twelve_paid_up)
   \<and> calc_instalmentsDue (amortizationSchedule (run_example example_twelve_paid_up))
        (upToDate example_twelve_paid_up) = 6
   \<and> calc_instalmentsPaidNum example_twelve_paid_up
        (amortizationSchedule (run_example example_twelve_paid_up)) = 7
   \<and> installmentsToBePaid (run_example example_twelve_paid_up) = 0
   \<and> overdueSinceDate (run_example example_twelve_paid_up) = None"
proof -
  have s1: "amortizationSchedule (run_example example_twelve)
              = calc_schedule addMonths_cal example_twelve"
    using examples_return(5) by (rule handleCalculate_schedule)
  have s2: "amortizationSchedule (run_example example_twelve_paid_up)
              = calc_schedule addMonths_cal example_twelve"
    using handleCalculate_schedule[OF examples_return(6)] example_twelve_paid_up_schedule
    by simp
  note t1 = overdue_since_date[OF examples_return(5), unfolded s1 example_twelve_facts]
  note t2 = overdue_since_date[OF examples_return(6), unfolded s2 example_twelve_facts]
  from t1 have a: "installmentsToBePaid (run_example example_twelve) = 2"
    by simp
  from t1 a have b: "overdueSinceDate (run_example example_twelve) = Some (mkDate 2024 5 1)"
    "overdueDays (run_example example_twelve) = Some 45"
    by (simp_all add: example_twelve_facts)
  from t2 have c: "installmentsToBePaid (run_example example_twelve_paid_up) = 0"
    "overdueSinceDate (run_example example_twelve_paid_up) = None"
    by simp_all
  show ?thesis
    unfolding s1 s2
    by (intro conjI; rule examples_return example_twelve_facts a b c)
qed

section \<open>A period rate of zero\<close>

lemma real_pow_one: "real_pow 1 y = 1"
  by (simp add: real_pow_def)

lemma js_pow_one: "js_pow (Fin 1) (Fin y) = Fin 1"
  by (simp add: real_pow_one)

lemma getRatePerPeriod_zero: "getRatePerPeriod (Fin 0) interestFrequency instalmentMonths = Fin 0"
  by (simp add: getRatePerPeriod_def Let_def periodsPerYear_def js_sub_def real_pow_one)

lemma emiFormula_zero_rate: "emiFormula (Fin P) (Fin 0) n = NaN"
  by (simp add: emiFormula_def real_pow_one js_sub_def)

lemma scheduleLoop_NaN:
  "map principalAmount (scheduleLoop am sd m r NaN n i b) = replicate (nat (n - int i)) NaN"
proof (induction "nat (n - int i)" arbitrary: i b)
  case 0
  then show ?case by (simp add: scheduleLoop.simps)
next
  case (Suc k)
  then have k: "k = nat (n - int (Suc i))" by simp
  have lt: "int i < n" using Suc(2) by simp
  have "Suc (nat (n - int (Suc i))) = nat (n - int i)" using lt by simp
  then have "replicate (nat (n - int i)) NaN = NaN # replicate (nat (n - int (Suc i))) NaN"
    by (metis replicate_Suc)
  with Suc(1)[OF k] lt show ?case
    by (subst scheduleLoop.simps) (simp add: Let_def js_sub_def)
qed

text \<open>
  Claim C1 says that a period rate of 0 gives the instalment principal / n, with no interest
  and no NaN. The code has no such case: at an annual rate of 0 the period rate is 0 and the
  instalment is P * 0 * 1 / (1 - 1), which is NaN, in the DCB calculator and in the loan
  calculator alike, and the principal part of every row is NaN. Here on a loan of 12000 in
  twelve monthly instalments, for which the claim gives 1000.
\<close>

theorem zero_rate_instalment_is_NaN:
  "calc_ratePerPeriod example_zero_rate = Fin 0
   \<and> handleCalculate addMonths_cal differenceInDays_cal example_zero_rate
       = Inr (run_example example_zero_rate)
   \<and> instalmentAmount (run_example example_zero_rate) = NaN
   \<and> map principalAmount (amortizationSchedule (run_example example_zero_rate))
       = replicate 12 NaN
   \<and> emi (loan_handleCalculate addMonths_cal 12000 0 12 ''monthly'' ''monthly''
              (mkDate 2024 1 1)) = NaN
   \<and> map principalAmount
         (schedule (loan_handleCalculate addMonths_cal 12000 0 12 ''monthly'' ''monthly''
                      (mkDate 2024 1 1)))
       = replicate 12 NaN"
proof -
  have r: "calc_ratePerPeriod example_zero_rate = Fin 0"
    by (simp add: calc_ratePerPeriod_def example_zero_rate_def example_twelve_def
          getRatePerPeriod_zero)
  have a: "calc_instalmentAmount example_zero_rate = NaN"
    by (simp add: calc_instalmentAmount_def r emiFormula_zero_rate)
  have ret: "handleCalculate addMonths_cal differenceInDays_cal example_zero_rate
       = Inr (run_example example_zero_rate)"
    unfolding run_example_def
    by (rule handleCalculate_returns, rule calc_instalmentsPaidNum_nonneg)
       (simp add: example_zero_rate_def example_twelve_def)
  note f = handleCalculate_fields[OF ret]
  have s: "map principalAmount (calc_schedule addMonths_cal example_zero_rate) = replicate 12 NaN"
    by (simp add: calc_schedule_def a scheduleLoop_NaN) (simp add: example_zero_rate_def example_twelve_def)
  have l: "loan_handleCalculate addMonths_cal 12000 0 12 ''monthly'' ''monthly'' (mkDate 2024 1 1)
      = \<lparr>emi = NaN, lastDate = addMonths_cal (mkDate 2024 1 1) 11,
         schedule = scheduleLoop addMonths_cal (mkDate 2024 1 1) 1 (Fin 0) NaN 12 0 (Fin 12000)\<rparr>"
    by (simp add: loan_handleCalculate_def Let_def loan_getMonthsToAdd_def
          getRatePerPeriod_zero emiFormula_zero_rate)
  show ?thesis
    using r ret f(1,2) a s by (simp add: l scheduleLoop_NaN)
qed

section \<open>The schedule repays the principal\<close>








subsection \<open>Rounding\<close>















subsection \<open>Without rounding\<close>







section \<open>Deposits paying interest monthly\<close>

lemma monthlyInterestLoop_step:
  assumes "m \<le> nMonths"
  shows "monthlyInterestLoop (Fin D) (Fin rate) nMonths m (Fin b) c =
           (\<lparr>month = m, contribution = Fin D,
              interest = js_add c (payoutInterest (Fin (b + D)) (Fin rate)),
              balance_deposit = Fin (b + D)\<rparr>
            # fst (monthlyInterestLoop (Fin D) (Fin rate) nMonths (Suc m) (Fin (b + D))
                    (js_add c (payoutInterest (Fin (b + D)) (Fin rate)))),
            snd (monthlyInterestLoop (Fin D) (Fin rate) nMonths (Suc m) (Fin (b + D))
                    (js_add c (payoutInterest (Fin (b + D)) (Fin rate)))))"
  using assms by (subst monthlyInterestLoop.simps) (simp add: Let_def)

lemma monthlyInterestLoop_done:
  assumes "\<not> m \<le> nMonths"
  shows "monthlyInterestLoop D ratePct nMonths m bal c = ([], bal, c)"
  using assms by (subst monthlyInterestLoop.simps) simp

lemma monthlyInterestLoop_length:
  "length (fst (monthlyInterestLoop (Fin D) (Fin rate) nMonths m (Fin b) c)) = Suc nMonths - m"
proof (induction "Suc nMonths - m" arbitrary: m b c)
  case 0
  then show ?case by (simp add: monthlyInterestLoop_done)
next
  case (Suc k)
  then have le: "m \<le> nMonths" and k: "k = Suc nMonths - Suc m" by simp_all
  show ?case
    unfolding monthlyInterestLoop_step[OF le]
    using Suc(1)[OF k] le by simp
qed

lemma monthlyInterestLoop_final:
  "fst (snd (monthlyInterestLoop (Fin D) (Fin rate) nMonths m (Fin b) c))
     = Fin (b + real (Suc nMonths - m) * D)"
proof (induction "Suc nMonths - m" arbitrary: m b c)
  case 0
  then show ?case by (simp add: monthlyInterestLoop_done)
next
  case (Suc k)
  then have le: "m \<le> nMonths" and k: "k = Suc nMonths - Suc m" by simp_all
  have e: "Suc nMonths - m = Suc (Suc nMonths - Suc m)" using le by simp
  show ?case
    unfolding monthlyInterestLoop_step[OF le] e
    using Suc(1)[OF k] by (simp add: algebra_simps)
qed

lemma monthlyInterestLoop_rows:
  assumes "i < Suc nMonths - m"
  shows "month (fst (monthlyInterestLoop (Fin D) (Fin rate) nMonths m (Fin b) c) ! i) = m + i
     \<and> contribution (fst (monthlyInterestLoop (Fin D) (Fin rate) nMonths m (Fin b) c) ! i) = Fin D
     \<and> balance_deposit (fst (monthlyInterestLoop (Fin D) (Fin rate) nMonths m (Fin b) c) ! i)
         = Fin (b + real (i + 1) * D)
     \<and> interest (fst (monthlyInterestLoop (Fin D) (Fin rate) nMonths m (Fin b) c) ! i)
         = js_add
             (if i = 0 then c
              else interest (fst (monthlyInterestLoop (Fin D) (Fin rate) nMonths m (Fin b) c)
                               ! (i - 1)))
             (payoutInterest (Fin (b + real i * D + D)) (Fin rate))"
  using assms
proof (induction i arbitrary: m b c)
  case 0
  then have le: "m \<le> nMonths" by simp
  show ?case
    unfolding monthlyInterestLoop_step[OF le] by simp
next
  case (Suc i)
  then have le: "m \<le> nMonths" and i: "i < Suc nMonths - Suc m" by simp_all
  have e1: "b + D + real (i + 1) * D = b + real (Suc i + 1) * D"
    by (simp add: algebra_simps)
  have e2: "b + D + real i * D + D = b + real (Suc i) * D + D"
    by (simp add: algebra_simps)
  note ih = Suc.IH[OF i, of "b + D" "js_add c (payoutInterest (Fin (b + D)) (Fin rate))",
              unfolded e1 e2]
  show ?case
  proof (cases i)
    case 0
    with ih show ?thesis
      unfolding monthlyInterestLoop_step[OF le] by simp
  next
    case (Suc j)
    with ih show ?thesis
      unfolding monthlyInterestLoop_step[OF le] by simp
  qed
qed

lemma payoutInterest_finite:
  "1200 + rate \<noteq> 0 \<Longrightarrow> payoutInterest (Fin b) (Fin rate) = Fin (b * rate / (1200 + rate))"
  by (simp add: payoutInterest_def)

lemma monthlyInterestLoop_constant:
  assumes "i < Suc nMonths - m" and "1200 + rate \<noteq> 0"
  shows "interest (fst (monthlyInterestLoop (Fin 0) (Fin rate) nMonths m (Fin b) (Fin c)) ! i)
           = Fin (c + real (i + 1) * (b * rate / (1200 + rate)))"
  using assms(1)
proof (induction i)
  case 0
  with monthlyInterestLoop_rows[OF 0, of 0 rate b "Fin c"] show ?case
    by (simp add: payoutInterest_finite[OF assms(2)])
next
  case (Suc i)
  define X where "X = b * rate / (1200 + rate)"
  have p: "payoutInterest (Fin b) (Fin rate) = Fin X"
    unfolding X_def by (rule payoutInterest_finite[OF assms(2)])
  have e: "c + real (i + 1) * X + X = c + real (Suc i + 1) * X"
    by (simp add: algebra_simps)
  from Suc have "i < Suc nMonths - m" by simp
  with Suc.IH have "interest (fst (monthlyInterestLoop (Fin 0) (Fin rate) nMonths m (Fin b)
                      (Fin c)) ! i) = Fin (c + real (i + 1) * X)"
    unfolding X_def by simp
  with monthlyInterestLoop_rows[OF Suc.prems, of 0 rate b "Fin c"]
  have "interest (fst (monthlyInterestLoop (Fin 0) (Fin rate) nMonths m (Fin b) (Fin c)) ! Suc i)
          = Fin (c + real (i + 1) * X + X)"
    by (simp add: p)
  then have "interest (fst (monthlyInterestLoop (Fin 0) (Fin rate) nMonths m (Fin b) (Fin c))
                ! Suc i) = Fin (c + real (Suc i + 1) * X)"
    by (simp only: e)
  then show ?case
    by (simp only: X_def)
qed
lemma handleCalc_monthly:
  "handleCalc P D nMonths rate compounding MonthlyInterest =
     (\<lparr>totalPrincipal = js_add (Fin P) (js_mul (Fin D) (Fin (real nMonths))),
        interestAmount_deposit =
          snd (snd (monthlyInterestLoop (Fin D) (Fin rate) nMonths 1 (Fin P) (Fin 0))),
        maturityValue =
          fst (snd (monthlyInterestLoop (Fin D) (Fin rate) nMonths 1 (Fin P) (Fin 0))),
        apy = (if 0 < compoundsPerYear compounding then
                 js_sub (js_pow (js_add (Fin 1)
                                   (js_div (js_div (Fin rate) (Fin 100))
                                      (Fin (compoundsPerYear compounding))))
                                (Fin (compoundsPerYear compounding))) (Fin 1)
               else js_div (Fin rate) (Fin 100))\<rparr>,
      fst (monthlyInterestLoop (Fin D) (Fin rate) nMonths 1 (Fin P) (Fin 0)))"
  by (simp add: handleCalc_def Let_def split_beta)

text \<open>
  Claim C9. With interest paid out monthly, the table has one row for each month m from 1
  to the term. The balance of month m is the principal plus m contributions: it never
  includes interest. The interest of month m is (balance + contribution) * rate /
  (1200 + rate), the balance being that of the month before and the rate the annual rate in
  percent; the table records the interest cumulated so far, so the interest of the month is
  what the month adds to it. The maturity value is the principal plus all contributions.
  With a principal of 100000, a rate of 12 percent and no contribution, every month adds
  100000 * 12 / 1212, about 990.10.
\<close>

theorem monthly_interest_payout:
  "length (snd (handleCalc P D nMonths rate compounding MonthlyInterest)) = nMonths
   \<and> (\<forall>i<nMonths.
        month (snd (handleCalc P D nMonths rate compounding MonthlyInterest) ! i) = i + 1
      \<and> contribution (snd (handleCalc P D nMonths rate compounding MonthlyInterest) ! i) = Fin D
      \<and> balance_deposit (snd (handleCalc P D nMonths rate compounding MonthlyInterest) ! i)
          = Fin (P + real (i + 1) * D)
      \<and> interest (snd (handleCalc P D nMonths rate compounding MonthlyInterest) ! i)
          = js_add
              (if i = 0 then Fin 0
               else interest (snd (handleCalc P D nMonths rate compounding MonthlyInterest)
                                ! (i - 1)))
              (js_div (js_mul (js_mul (Fin (P + real i * D + D)) (Fin 1)) (Fin rate))
                      (js_add (Fin 1200) (Fin rate))))
   \<and> maturityValue (fst (handleCalc P D nMonths rate compounding MonthlyInterest))
       = Fin (P + real nMonths * D)
   \<and> (\<forall>i<nMonths.
        interest (snd (handleCalc 100000 0 nMonths 12 compounding MonthlyInterest) ! i)
          = Fin (real (i + 1) * (100000 * 12 / (1200 + 12))))
   \<and> 990.09 < (100000 * 12 / (1200 + 12) :: real)
   \<and> (100000 * 12 / (1200 + 12) :: real) < 990.11"
proof -
  have a: "length (snd (handleCalc P D nMonths rate compounding MonthlyInterest)) = nMonths"
    by (simp add: handleCalc_monthly monthlyInterestLoop_length)
  have b: "\<forall>i<nMonths.
        month (snd (handleCalc P D nMonths rate compounding MonthlyInterest) ! i) = i + 1
      \<and> contribution (snd (handleCalc P D nMonths rate compounding MonthlyInterest) ! i) = Fin D
      \<and> balance_deposit (snd (handleCalc P D nMonths rate compounding MonthlyInterest) ! i)
          = Fin (P + real (i + 1) * D)
      \<and> interest (snd (handleCalc P D nMonths rate compounding MonthlyInterest) ! i)
          = js_add
              (if i = 0 then Fin 0
               else interest (snd (handleCalc P D nMonths rate compounding MonthlyInterest)
                                ! (i - 1)))
              (js_div (js_mul (js_mul (Fin (P + real i * D + D)) (Fin 1)) (Fin rate))
                      (js_add (Fin 1200) (Fin rate)))"
  proof (intro allI impI)
    fix i assume "i < nMonths"
    then have "i < Suc nMonths - 1" by simp
    from monthlyInterestLoop_rows[OF this, of D rate P "Fin 0"]
    show "month (snd (handleCalc P D nMonths rate compounding MonthlyInterest) ! i) = i + 1
      \<and> contribution (snd (handleCalc P D nMonths rate compounding MonthlyInterest) ! i) = Fin D
      \<and> balance_deposit (snd (handleCalc P D nMonths rate compounding MonthlyInterest) ! i)
          = Fin (P + real (i + 1) * D)
      \<and> interest (snd (handleCalc P D nMonths rate compounding MonthlyInterest) ! i)
          = js_add
              (if i = 0 then Fin 0
               else interest (snd (handleCalc P D nMonths rate compounding MonthlyInterest)
                                ! (i - 1)))
              (js_div (js_mul (js_mul (Fin (P + real i * D + D)) (Fin 1)) (Fin rate))
                      (js_add (Fin 1200) (Fin rate)))"
      unfolding handleCalc_monthly snd_conv payoutInterest_def by simp
  qed
  have c: "maturityValue (fst (handleCalc P D nMonths rate compounding MonthlyInterest))
       = Fin (P + real nMonths * D)"
    by (simp add: handleCalc_monthly monthlyInterestLoop_final)
  have d: "\<forall>i<nMonths.
        interest (snd (handleCalc 100000 0 nMonths 12 compounding MonthlyInterest) ! i)
          = Fin (real (i + 1) * (100000 * 12 / (1200 + 12)))"
  proof (intro allI impI)
    fix i assume "i < nMonths"
    then have i: "i < Suc nMonths - 1" by simp
    have nz: "1200 + (12::real) \<noteq> 0" by simp
    from monthlyInterestLoop_constant[OF i nz, of 100000 0]
    show "interest (snd (handleCalc 100000 0 nMonths 12 compounding MonthlyInterest) ! i)
          = Fin (real (i + 1) * (100000 * 12 / (1200 + 12)))"
      unfolding handleCalc_monthly snd_conv by simp
  qed
  have e: "990.09 < (100000 * 12 / (1200 + 12) :: real)"
    "(100000 * 12 / (1200 + 12) :: real) < 990.11"
    by simp_all
  from a b c d e show ?thesis
    by (intro conjI)
qed

theorem monthly_interest_payout_witness:
  "(2::nat) < 3
   \<and> length (snd (handleCalc 100000 500 3 12 ''monthly'' MonthlyInterest)) = 3
   \<and> month (snd (handleCalc 100000 500 3 12 ''monthly'' MonthlyInterest) ! 2) = 3
   \<and> balance_deposit (snd (handleCalc 100000 500 3 12 ''monthly'' MonthlyInterest) ! 2)
       = Fin 101500
   \<and> interest (snd (handleCalc 100000 500 3 12 ''monthly'' MonthlyInterest) ! 2)
       = js_add (interest (snd (handleCalc 100000 500 3 12 ''monthly'' MonthlyInterest) ! 1))
           (Fin (101500 * 12 / 1212))
   \<and> maturityValue (fst (handleCalc 100000 500 3 12 ''monthly'' MonthlyInterest)) = Fin 101500
   \<and> interest (snd (handleCalc 100000 0 3 12 ''monthly'' MonthlyInterest) ! 2)
       = Fin (3 * (100000 * 12 / 1212))"
proof -
  note t = monthly_interest_payout[of 100000 500 3 12 "''monthly''"]
  have h: "(2::nat) < 3" by simp
  from t h have r:
    "month (snd (handleCalc 100000 500 3 12 ''monthly'' MonthlyInterest) ! 2) = 2 + 1
      \<and> contribution (snd (handleCalc 100000 500 3 12 ''monthly'' MonthlyInterest) ! 2) = Fin 500
      \<and> balance_deposit (snd (handleCalc 100000 500 3 12 ''monthly'' MonthlyInterest) ! 2)
          = Fin (100000 + real (2 + 1) * 500)
      \<and> interest (snd (handleCalc 100000 500 3 12 ''monthly'' MonthlyInterest) ! 2)
          = js_add
              (if (2::nat) = 0 then Fin 0
               else interest (snd (handleCalc 100000 500 3 12 ''monthly'' MonthlyInterest)
                                ! (2 - 1)))
              (js_div (js_mul (js_mul (Fin (100000 + real 2 * 500 + 500)) (Fin 1)) (Fin 12))
                      (js_add (Fin 1200) (Fin 12)))"
    by blast
  from t h have s:
    "interest (snd (handleCalc 100000 0 3 12 ''monthly'' MonthlyInterest) ! 2)
          = Fin (real (2 + 1) * (100000 * 12 / (1200 + 12)))"
    by blast
  from t have l: "length (snd (handleCalc 100000 500 3 12 ''monthly'' MonthlyInterest)) = 3"
    and m: "maturityValue (fst (handleCalc 100000 500 3 12 ''monthly'' MonthlyInterest))
       = Fin (100000 + real 3 * 500)"
    by blast+
  from r s l m show ?thesis
    by simp
qed

section \<open>Deposits paid at maturity, with compounding\<close>

lemma handleCalc_maturity_compounding:
  assumes "compoundsPerYear compounding \<noteq> 0"
  shows "fst (handleCalc P D nMonths rate compounding Maturity) =
     \<lparr>totalPrincipal = js_add (Fin P) (js_mul (Fin D) (Fin (real nMonths))),
      interestAmount_deposit =
        js_max (Fin 0)
          (js_sub
             (js_add
                (js_mul (Fin P)
                   (js_pow (js_add (Fin 1)
                              (monthlyRate (js_div (Fin rate) (Fin 100))
                                 (compoundsPerYear compounding)))
                           (Fin (real nMonths))))
                (fvMonthly (Fin D)
                   (monthlyRate (js_div (Fin rate) (Fin 100)) (compoundsPerYear compounding))
                   nMonths))
             (js_add (Fin P) (js_mul (Fin D) (Fin (real nMonths))))),
      maturityValue =
        js_add
          (js_mul (Fin P)
             (js_pow (js_add (Fin 1)
                        (monthlyRate (js_div (Fin rate) (Fin 100))
                           (compoundsPerYear compounding)))
                     (Fin (real nMonths))))
          (fvMonthly (Fin D)
             (monthlyRate (js_div (Fin rate) (Fin 100)) (compoundsPerYear compounding))
             nMonths),
      apy = (if 0 < compoundsPerYear compounding then
               js_sub (js_pow (js_add (Fin 1)
                                 (js_div (js_div (Fin rate) (Fin 100))
                                    (Fin (compoundsPerYear compounding))))
                              (Fin (compoundsPerYear compounding))) (Fin 1)
             else js_div (Fin rate) (Fin 100))\<rparr>"
  using assms by (simp add: handleCalc_def Let_def split_beta)

text \<open>
  Claim C10, as stated: at maturity with a compounding frequency, the maturity value is
  principal * (1+j)^months plus the annuity-due term contribution * ((1+j)^months - 1) / j *
  (1+j), which becomes contribution * months when j = 0. The code uses the annuity-due term
  only for a contribution greater than 0: with a principal of 1000, a monthly contribution
  of -100 over 2 months at 12 percent compounded monthly (j = 1/100), the maturity value is
  1020.10 - 200 = 820.10, not 1020.10 - 203.01 = 817.09.
\<close>

theorem maturity_annuity_counterexample:
  "monthlyRate (js_div (Fin 12) (Fin 100)) (compoundsPerYear ''monthly'') = Fin (1 / 100)
   \<and> maturityValue (fst (handleCalc 1000 (- 100) 2 12 ''monthly'' Maturity)) = Fin (8201 / 10)
   \<and> js_add
        (js_mul (Fin 1000) (js_pow (js_add (Fin 1) (Fin (1 / 100))) (Fin 2)))
        (js_mul
           (js_mul (Fin (- 100))
              (js_div (js_sub (js_pow (js_add (Fin 1) (Fin (1 / 100))) (Fin 2)) (Fin 1))
                      (Fin (1 / 100))))
           (js_add (Fin 1) (Fin (1 / 100))))
       = Fin (81709 / 100)"
  by code_simp

text \<open>
  Claim C10, amended. At maturity with a compounding frequency, the maturity value is
  principal * (1+j)^months plus the future value of the contributions, which is the
  annuity-due term contribution * ((1+j)^months - 1) / j * (1+j) when the contribution is
  greater than 0 and j is not 0, and contribution * months otherwise; the interest amount
  is the maximum of 0 and the maturity value minus the total contributed, principal +
  contribution * months. In particular a principal of 100000 with no contribution over 12
  months at 12 percent compounded monthly matures at 100000 * 1.01^12, about 112682.50.
\<close>

theorem maturity_compounding_value:
  assumes "compoundsPerYear compounding \<noteq> 0"
  shows "maturityValue (fst (handleCalc P D nMonths rate compounding Maturity)) =
     js_add
       (js_mul (Fin P)
          (js_pow (js_add (Fin 1)
                     (monthlyRate (js_div (Fin rate) (Fin 100)) (compoundsPerYear compounding)))
                  (Fin (real nMonths))))
       (if js_gt (Fin D) (Fin 0)
           \<and> js_neq (monthlyRate (js_div (Fin rate) (Fin 100)) (compoundsPerYear compounding))
                 (Fin 0)
        then js_mul
               (js_mul (Fin D)
                  (js_div
                     (js_sub
                        (js_pow (js_add (Fin 1)
                                   (monthlyRate (js_div (Fin rate) (Fin 100))
                                      (compoundsPerYear compounding)))
                                (Fin (real nMonths)))
                        (Fin 1))
                     (monthlyRate (js_div (Fin rate) (Fin 100)) (compoundsPerYear compounding))))
               (js_add (Fin 1)
                  (monthlyRate (js_div (Fin rate) (Fin 100)) (compoundsPerYear compounding)))
        else js_mul (Fin D) (Fin (real nMonths)))
   \<and> interestAmount_deposit (fst (handleCalc P D nMonths rate compounding Maturity)) =
       js_max (Fin 0)
         (js_sub (maturityValue (fst (handleCalc P D nMonths rate compounding Maturity)))
                 (totalPrincipal (fst (handleCalc P D nMonths rate compounding Maturity))))
   \<and> totalPrincipal (fst (handleCalc P D nMonths rate compounding Maturity))
       = Fin (P + D * real nMonths)
   \<and> maturityValue (fst (handleCalc 100000 0 12 12 ''monthly'' Maturity))
       = Fin (100000 * (101 / 100) ^ 12)
   \<and> 112682.50 < (100000 * (101 / 100) ^ 12 :: real)
   \<and> (100000 * (101 / 100) ^ 12 :: real) < 112682.51"
proof -
  have nz: "compoundsPerYear ''monthly'' \<noteq> 0"
    by (simp add: compoundsPerYear_def)
  have j: "monthlyRate (js_div (Fin 12) (Fin 100)) (compoundsPerYear ''monthly'') = Fin (1 / 100)"
    by (simp add: compoundsPerYear_def monthlyRate_def real_pow_def is_int_def js_sub_def)
  have p: "js_pow (js_add (Fin 1) (Fin (1 / 100))) (Fin (real (12::nat)))
             = Fin ((101 / 100) ^ 12)"
    by (simp add: real_pow_def is_int_def)
  have f: "fvMonthly (Fin 0) (Fin (1 / 100)) 12 = Fin 0"
    by (simp add: fvMonthly_def js_gt_def)
  have s: "maturityValue (fst (handleCalc 100000 0 12 12 ''monthly'' Maturity))
       = Fin (100000 * (101 / 100) ^ 12)"
    by (simp only: handleCalc_maturity_compounding[OF nz] j p f DepositResult.select_convs)
       simp
  have b: "112682.50 < (100000 * (101 / 100) ^ 12 :: real)"
    "(100000 * (101 / 100) ^ 12 :: real) < 112682.51"
    by (simp_all add: power_divide)
  show ?thesis
    using s b
    by (simp add: handleCalc_maturity_compounding[OF assms] fvMonthly_def)
qed

theorem maturity_compounding_value_witness:
  "compoundsPerYear ''monthly'' \<noteq> 0
   \<and> monthlyRate (js_div (Fin 12) (Fin 100)) (compoundsPerYear ''monthly'') = Fin (1 / 100)
   \<and> maturityValue (fst (handleCalc 1000 100 2 12 ''monthly'' Maturity))
       = js_add
           (js_mul (Fin 1000) (js_pow (js_add (Fin 1) (Fin (1 / 100))) (Fin 2)))
           (js_mul
              (js_mul (Fin 100)
                 (js_div (js_sub (js_pow (js_add (Fin 1) (Fin (1 / 100))) (Fin 2)) (Fin 1))
                         (Fin (1 / 100))))
              (js_add (Fin 1) (Fin (1 / 100))))
   \<and> maturityValue (fst (handleCalc 1000 100 2 12 ''monthly'' Maturity)) = Fin (122311 / 100)
   \<and> totalPrincipal (fst (handleCalc 1000 100 2 12 ''monthly'' Maturity)) = Fin 1200
   \<and> interestAmount_deposit (fst (handleCalc 1000 100 2 12 ''monthly'' Maturity))
       = Fin (2311 / 100)"
proof -
  have h: "compoundsPerYear ''monthly'' \<noteq> 0"
    by (simp add: compoundsPerYear_def)
  have j: "monthlyRate (js_div (Fin 12) (Fin 100)) (compoundsPerYear ''monthly'') = Fin (1 / 100)"
    by code_simp
  have g: "js_gt (Fin 100) (Fin 0) \<and> js_neq (Fin (1 / 100)) (Fin 0)"
    by (simp add: js_gt_def js_neq_def)
  have v: "js_add
           (js_mul (Fin 1000) (js_pow (js_add (Fin 1) (Fin (1 / 100))) (Fin 2)))
           (js_mul
              (js_mul (Fin 100)
                 (js_div (js_sub (js_pow (js_add (Fin 1) (Fin (1 / 100))) (Fin 2)) (Fin 1))
                         (Fin (1 / 100))))
              (js_add (Fin 1) (Fin (1 / 100)))) = Fin (122311 / 100)"
    by code_simp
  note t = maturity_compounding_value[OF h, of 1000 100 2 12, unfolded j]
  from t g have m: "maturityValue (fst (handleCalc 1000 100 2 12 ''monthly'' Maturity))
       = js_add
           (js_mul (Fin 1000) (js_pow (js_add (Fin 1) (Fin (1 / 100))) (Fin 2)))
           (js_mul
              (js_mul (Fin 100)
                 (js_div (js_sub (js_pow (js_add (Fin 1) (Fin (1 / 100))) (Fin 2)) (Fin 1))
                         (Fin (1 / 100))))
              (js_add (Fin 1) (Fin (1 / 100))))"
    by simp
  from t have tp: "totalPrincipal (fst (handleCalc 1000 100 2 12 ''monthly'' Maturity)) = Fin 1200"
    by simp
  from t have "interestAmount_deposit (fst (handleCalc 1000 100 2 12 ''monthly'' Maturity)) =
       js_max (Fin 0)
         (js_sub (maturityValue (fst (handleCalc 1000 100 2 12 ''monthly'' Maturity)))
                 (totalPrincipal (fst (handleCalc 1000 100 2 12 ''monthly'' Maturity))))"
    by blast
  then have ia: "interestAmount_deposit (fst (handleCalc 1000 100 2 12 ''monthly'' Maturity))
       = Fin (2311 / 100)"
    unfolding m[unfolded v] tp by (simp add: js_max_def js_sub_def)
  show ?thesis
    by (intro conjI; rule h j m m[unfolded v] tp ia)
qed

end
